theory Spec2Isabelle
  imports Main "HOL-Library.Word"
begin

section \<open>The peer task pull engine of the Dragonfly2 client daemon\<close>

text \<open>
  A shallow embedding of \<^verbatim>\<open>client/daemon/peer/peertask_base.go\<close>,
  \<^verbatim>\<open>peertask_file.go\<close> and \<^verbatim>\<open>peertask_dummy.go\<close>. Go's fixed-width integers are
  words, the task struct is a record passed through every function and returned updated,
  channels are their observable state, and a panic is a value of the type \<open>panic\<close>.
\<close>

subsection \<open>Integers, codes and constants\<close>

type_synonym int32 = "32 word"
type_synonym int64 = "64 word"
type_synonym uint32 = "32 word"

text \<open>\<^verbatim>\<open>base.Code\<close> is a 32-bit integer type.\<close>

type_synonym code = "32 word"

text \<open>
  The package \<^verbatim>\<open>internal/dfcodes\<close> that declares the code constants is not among the
  sources, so the table of constants is a parameter \<open>dc\<close> of every function that names
  one: \<^verbatim>\<open>dfcodes.SchedError\<close> is written \<open>SchedError dc\<close>.
\<close>

record dfcodes =
  Success :: code
  ResourceLacked :: code
  BadRequest :: code
  PeerTaskNotFound :: code
  UnknownError :: code
  RequestTimeOut :: code
  ClientError :: code
  ClientPieceRequestFail :: code
  ClientScheduleTimeout :: code
  ClientContextCanceled :: code
  ClientWaitPieceReady :: code
  ClientRequestLimitFail :: code
  SchedError :: code
  SchedNeedBackSource :: code
  SchedPeerGone :: code
  CdnError :: code
  CdnTaskRegistryFail :: code
  CdnTaskDownloadFail :: code
  CdnTaskNotFound :: code

text \<open>
  One table to instantiate the parameter with: the numbering of the Dragonfly2 code
  package, whose ranges the comments \<^verbatim>\<open>// 1xxx\<close>, \<^verbatim>\<open>// 5xxx\<close> and \<^verbatim>\<open>// 6xxx\<close> in
  \<^verbatim>\<open>isExitPeerPacketCode\<close> name.
\<close>

definition dfcodes_table :: dfcodes where
  "dfcodes_table =
     \<lparr> Success = 200, ResourceLacked = 1000, BadRequest = 1400, PeerTaskNotFound = 1404,
       UnknownError = 1500, RequestTimeOut = 1504, ClientError = 4000,
       ClientPieceRequestFail = 4001, ClientScheduleTimeout = 4002,
       ClientContextCanceled = 4003, ClientWaitPieceReady = 4004,
       ClientRequestLimitFail = 4006, SchedError = 5000, SchedNeedBackSource = 5001,
       SchedPeerGone = 5002, CdnError = 6000, CdnTaskRegistryFail = 6001,
       CdnTaskDownloadFail = 6002, CdnTaskNotFound = 6404 \<rparr>"

definition reasonScheduleTimeout :: string where
  "reasonScheduleTimeout = ''wait first peer packet from scheduler timeout''"

definition reasonReScheduleTimeout :: string where
  "reasonReScheduleTimeout = ''wait more available peers from scheduler timeout''"

definition reasonContextCanceled :: string where
  "reasonContextCanceled = ''context canceled''"

definition reasonPeerGoneFromScheduler :: string where
  "reasonPeerGoneFromScheduler = ''scheduler says client should disconnect''"

definition failedReasonNotSet :: string where
  "failedReasonNotSet = ''unknown''"

definition failedCodeNotSet :: code where
  "failedCodeNotSet = 0"

text \<open>\<^verbatim>\<open>fmt.Sprintf("%d", c)\<close> for a signed integer: its decimal digits.\<close>

definition digit_char :: "nat \<Rightarrow> char" where
  "digit_char n = ''0123456789'' ! n"

fun show_nat :: "nat \<Rightarrow> string" where
  "show_nat n = (if n < 10 then [digit_char n] else show_nat (n div 10) @ [digit_char (n mod 10)])"

declare show_nat.simps [simp del]

definition show_int :: "int \<Rightarrow> string" where
  "show_int i = (if i < 0 then CHR ''-'' # show_nat (nat (- i)) else show_nat (nat i))"

definition exitReason :: "code \<Rightarrow> string" where
  "exitReason c = ''receive exit peer packet with code '' @ show_int (sint c)"

subsection \<open>The piece bitmap\<close>

text \<open>
  Modelled from the spec: the type \<^verbatim>\<open>Bitmap\<close> (\<^verbatim>\<open>NewBitmap\<close>, \<^verbatim>\<open>IsSet\<close>, \<^verbatim>\<open>Set\<close>,
  \<^verbatim>\<open>Settled\<close>) is not among the sources. The specification describes it as a dense bit set
  over piece indices that starts empty, whose \<open>set\<close> is idempotent and whose \<open>count\<close> is
  the number of set bits. The bit set is the set of indices whose bit is set; \<^verbatim>\<open>Settled\<close>
  returns the count as an \<^verbatim>\<open>int32\<close>.
\<close>

type_synonym Bitmap = "int32 set"

definition NewBitmap :: Bitmap where
  "NewBitmap = {}"

definition IsSet :: "Bitmap \<Rightarrow> int32 \<Rightarrow> bool" where
  "IsSet b i = (i \<in> b)"

definition Set_bit :: "Bitmap \<Rightarrow> int32 \<Rightarrow> Bitmap" where
  "Set_bit b i = insert i b"

definition Settled :: "Bitmap \<Rightarrow> int32" where
  "Settled b = of_nat (card b)"

subsection \<open>Messages\<close>

text \<open>\<^verbatim>\<open>base.PieceInfo\<close>: the piece number is an \<^verbatim>\<open>int32\<close>, the range size a \<^verbatim>\<open>uint32\<close>.\<close>

record PieceInfo =
  PieceNum :: int32
  RangeStart :: "64 word"
  RangeSize :: uint32

text \<open>\<^verbatim>\<open>scheduler.PieceResult\<close>, with the fields this code reads or writes.\<close>

record PieceResult =
  pr_TaskId :: string
  pr_SrcPid :: string
  pr_DstPid :: string
  pr_PieceNum :: int32
  pr_Success :: bool
  pr_Code :: code
  pr_FinishedCount :: int32

record pieceTaskResult =
  piece :: PieceInfo
  pieceResult :: PieceResult

record DestPeer =
  Ip :: string
  RpcPort :: int32
  PeerId :: string

text \<open>
  \<^verbatim>\<open>scheduler.PeerPacket\<close>. \<^verbatim>\<open>MainPeer\<close> is a pointer and \<^verbatim>\<open>StealPeers\<close> a slice of
  pointers: \<open>None\<close> is \<^verbatim>\<open>nil\<close>.
\<close>

record PeerPacket =
  pp_TaskId :: string
  pp_SrcPid :: string
  ParallelCount :: int32
  MainPeer :: "DestPeer option"
  StealPeers :: "DestPeer option list option"
  pp_Code :: code

record ProgressState =
  ps_Success :: bool
  ps_Code :: code
  ps_Msg :: string

text \<open>\<^verbatim>\<open>FilePeerTaskProgress\<close>; the \<^verbatim>\<open>DoneCallback\<close> closure is the operation \<open>DoneCallback\<close> below.\<close>

record FilePeerTaskProgress =
  State :: ProgressState
  fp_TaskID :: string
  fp_PeerID :: string
  fp_ContentLength :: int64
  fp_CompletedLength :: int64
  PeerTaskDone :: bool

record SinglePiece =
  sp_DstPid :: string
  sp_DstAddr :: string
  sp_PieceInfo :: PieceInfo

subsection \<open>The scheduler client and its stream\<close>

text \<open>
  The client is the one the daemon was given or the \<^verbatim>\<open>dummySchedulerClient\<close> of
  \<^verbatim>\<open>peertask_dummy.go\<close>; the stream is the one the real client opened or the
  \<^verbatim>\<open>dummyPeerPacketStream\<close>.
\<close>

datatype SchedulerClient = realSchedulerClient | dummySchedulerClient

datatype PeerPacketStream = schedulerStream | dummyPeerPacketStream

datatype recv_result =
    RecvEOF
  | RecvDfError code string
  | RecvError string
  | RecvPacket PeerPacket

text \<open>Calls of the \<^verbatim>\<open>TaskCallback\<close>, in the order they were made.\<close>

datatype callback_call =
    CallInit
  | CallUpdate
  | CallDone
  | CallFail code string

subsection \<open>The task\<close>

datatype panic =
    NilPointerDereference
  | NilInterfaceConversion
  | CloseOfClosedChannel
  | SendOnClosedChannel

record chan_bool =
  cb_closed :: bool
  cb_len :: nat

record chan_int32 =
  ci_closed :: bool
  ci_buf :: "int32 list"

text \<open>
  The fields of \<^verbatim>\<open>peerTask\<close> and \<^verbatim>\<open>filePeerTask\<close> that carry state. A channel of
  signals is whether it is closed; \<open>cancelled\<close> says that \<^verbatim>\<open>pt.cancel()\<close> has been called;
  \<open>DisableAutoBackSource\<close> is the field of that name of \<^verbatim>\<open>pt.schedulerOption\<close>.
  The last five fields are what the task did to its collaborators: the results handed to
  the scheduler stream, the progress events the consumer received, the callback calls,
  the number of calls of \<^verbatim>\<open>pieceManager.DownloadSource\<close>, and the panics that
  \<^verbatim>\<open>recoverFromPanic\<close> caught and logged.
\<close>

record peerTask =
  needBackSource :: bool
  DisableAutoBackSource :: bool
  peerID :: string
  taskID :: string
  totalPiece :: int32
  contentLength :: int64
  completedLength :: int64
  usedTraffic :: int64
  singlePiece :: "SinglePiece option"
  schedulerClient :: SchedulerClient
  peerPacketStream :: PeerPacketStream
  peerPacket :: "PeerPacket option"
  peerPacketReady :: chan_bool
  pieceParallelCount :: int32
  done_ch :: bool
  peerTaskDone :: bool
  once :: bool
  failedPieceCh :: chan_int32
  failedReason :: string
  failedCode :: code
  readyPieces :: Bitmap
  requestedPieces :: Bitmap
  progressStopCh :: bool
  cancelled :: bool
  sent :: "PieceResult list"
  progress :: "FilePeerTaskProgress list"
  callbacks :: "callback_call list"
  downloadSourceCalls :: nat
  recovered :: "panic list"

subsection \<open>\<^verbatim>\<open>isCompleted\<close>\<close>

definition isCompleted :: "peerTask \<Rightarrow> bool" where
  "isCompleted pt = (completedLength pt = contentLength pt)"

subsection \<open>Sending on the scheduler stream\<close>

text \<open>
  \<^verbatim>\<open>pt.peerPacketStream.Send\<close>. The real stream hands the result to the scheduler, and
  every caller drops or only logs the error it returns; \<^verbatim>\<open>dummyPeerPacketStream.Send\<close>
  returns \<^verbatim>\<open>nil\<close> and does nothing else.
\<close>

definition dummy_Send :: "PieceResult \<Rightarrow> string option" where
  "dummy_Send pr = None"

definition dummy_Recv :: "dfcodes \<Rightarrow> recv_result" where
  "dummy_Recv dc = RecvDfError (SchedNeedBackSource dc) []"

definition Send :: "PieceResult \<Rightarrow> peerTask \<Rightarrow> peerTask" where
  "Send pr pt =
     (case peerPacketStream pt of
        schedulerStream \<Rightarrow> pt\<lparr>sent := sent pt @ [pr]\<rparr>
      | dummyPeerPacketStream \<Rightarrow> pt)"

text \<open>\<^verbatim>\<open>Recv\<close>: the real stream returns what the scheduler answered, \<open>net\<close>.\<close>

definition Recv :: "dfcodes \<Rightarrow> recv_result \<Rightarrow> peerTask \<Rightarrow> recv_result" where
  "Recv dc net pt =
     (case peerPacketStream pt of
        schedulerStream \<Rightarrow> net
      | dummyPeerPacketStream \<Rightarrow> dummy_Recv dc)"

text \<open>
  Modelled from the spec: \<^verbatim>\<open>scheduler.NewEndPieceResult\<close> is not among the sources. The
  specification calls its result the end-of-piece sentinel, a final \<^verbatim>\<open>PieceResult\<close> with
  \<open>piece_num = -1\<close>; the three arguments fill the task id, the source peer id and the
  finished count, and the other fields keep Go's zero values.
\<close>

definition EndOfPiece :: int32 where
  "EndOfPiece = - 1"

definition NewEndPieceResult :: "string \<Rightarrow> string \<Rightarrow> int32 \<Rightarrow> PieceResult" where
  "NewEndPieceResult tid pid finishedCount =
     \<lparr> pr_TaskId = tid, pr_SrcPid = pid, pr_DstPid = [], pr_PieceNum = EndOfPiece,
       pr_Success = False, pr_Code = 0, pr_FinishedCount = finishedCount \<rparr>"

subsection \<open>\<^verbatim>\<open>finish\<close> and \<^verbatim>\<open>cleanUnfinished\<close>\<close>

text \<open>
  \<^verbatim>\<open>pt.once.Do(f)\<close> runs \<open>f\<close> unless the latch is already set. Both bodies start with
  \<^verbatim>\<open>defer pt.recoverFromPanic()\<close>, so closing a closed \<^verbatim>\<open>done\<close> channel would end the
  body there and be logged.
\<close>

definition once_Do :: "(peerTask \<Rightarrow> peerTask) \<Rightarrow> peerTask \<Rightarrow> peerTask" where
  "once_Do f pt = (if once pt then pt else f (pt\<lparr>once := True\<rparr>))"

definition close_done :: "peerTask \<Rightarrow> peerTask" where
  "close_done pt =
     (if done_ch pt then pt\<lparr>recovered := recovered pt @ [CloseOfClosedChannel]\<rparr>
      else pt\<lparr>done_ch := True\<rparr>)"

text \<open>
  The body of \<^verbatim>\<open>finish\<close>. \<open>cbDone\<close> is the error \<^verbatim>\<open>callback.Done\<close> returned; \<open>received\<close>
  says which case of the first \<^verbatim>\<open>select\<close> fired: the consumer took the progress event, or
  the context was done. Both cases of the second \<^verbatim>\<open>select\<close> only log.
\<close>

definition finish_body :: "dfcodes \<Rightarrow> string option \<Rightarrow> bool \<Rightarrow> peerTask \<Rightarrow> peerTask" where
  "finish_body dc cbDone received pt =
     (let pt1 = Send (NewEndPieceResult (taskID pt) (peerID pt) (Settled (readyPieces pt))) pt;
          pt2 = pt1\<lparr>callbacks := callbacks pt1 @ [CallDone]\<rparr>;
          st = (case cbDone of
                  None \<Rightarrow> \<lparr>ps_Success = True, ps_Code = Success dc, ps_Msg = ''Success''\<rparr>
                | Some e \<Rightarrow> \<lparr>ps_Success = False, ps_Code = ClientError dc, ps_Msg = e\<rparr>);
          pg = \<lparr> State = st, fp_TaskID = taskID pt2, fp_PeerID = peerID pt2,
                 fp_ContentLength = contentLength pt2,
                 fp_CompletedLength = completedLength pt2, PeerTaskDone = True \<rparr>;
          pt3 = (if received then pt2\<lparr>progress := progress pt2 @ [pg]\<rparr> else pt2)
      in close_done pt3)"

text \<open>\<^verbatim>\<open>finish\<close> returns the error of \<^verbatim>\<open>callback.Done\<close> when its body ran, else \<^verbatim>\<open>nil\<close>.\<close>

definition finish :: "dfcodes \<Rightarrow> string option \<Rightarrow> bool \<Rightarrow> peerTask \<Rightarrow> string option \<times> peerTask" where
  "finish dc cbDone received pt =
     (if once pt then None else cbDone, once_Do (finish_body dc cbDone received) pt)"

definition cleanUnfinished_body :: "bool \<Rightarrow> peerTask \<Rightarrow> peerTask" where
  "cleanUnfinished_body received pt =
     (let pt1 = Send (NewEndPieceResult (taskID pt) (peerID pt) (Settled (readyPieces pt))) pt;
          pg = \<lparr> State = \<lparr>ps_Success = False, ps_Code = failedCode pt1, ps_Msg = failedReason pt1\<rparr>,
                 fp_TaskID = taskID pt1, fp_PeerID = peerID pt1,
                 fp_ContentLength = contentLength pt1,
                 fp_CompletedLength = completedLength pt1, PeerTaskDone = True \<rparr>;
          pt2 = (if received then pt1\<lparr>progress := progress pt1 @ [pg]\<rparr> else pt1);
          pt3 = pt2\<lparr>callbacks := callbacks pt2 @ [CallFail (failedCode pt2) (failedReason pt2)]\<rparr>
      in close_done pt3)"

text \<open>\<^verbatim>\<open>defer pt.cancel()\<close> runs whether or not the body does.\<close>

definition cleanUnfinished :: "bool \<Rightarrow> peerTask \<Rightarrow> peerTask" where
  "cleanUnfinished received pt = (once_Do (cleanUnfinished_body received) pt)\<lparr>cancelled := True\<rparr>"

text \<open>
  The closure \<^verbatim>\<open>DoneCallback\<close> of a final progress event, which the consumer calls.
\<close>

definition DoneCallback :: "peerTask \<Rightarrow> panic + peerTask" where
  "DoneCallback pt =
     (if progressStopCh pt then Inl CloseOfClosedChannel
      else Inr (pt\<lparr>peerTaskDone := True, progressStopCh := True\<rparr>))"

subsection \<open>\<^verbatim>\<open>filePeerTask.ReportPieceResult\<close>\<close>

text \<open>Which case of the \<^verbatim>\<open>select\<close> after the progress event was built fired.\<close>

datatype progress_sel =
    ProgressStopped
  | ProgressSent
  | ContextDone string

text \<open>
  A send on the closed \<^verbatim>\<open>failedPieceCh\<close> panics; the deferred \<^verbatim>\<open>recoverFromPanic\<close> catches
  it and the function returns \<^verbatim>\<open>nil\<close>. A send on a full channel waits for the pull loop
  to receive; the model records the value as queued.
\<close>

definition send_failedPieceCh :: "int32 \<Rightarrow> peerTask \<Rightarrow> peerTask" where
  "send_failedPieceCh n pt =
     (if ci_closed (failedPieceCh pt) then pt\<lparr>recovered := recovered pt @ [SendOnClosedChannel]\<rparr>
      else pt\<lparr>failedPieceCh := (failedPieceCh pt)\<lparr>ci_buf := ci_buf (failedPieceCh pt) @ [n]\<rparr>\<rparr>)"

definition ReportPieceResult ::
  "dfcodes \<Rightarrow> pieceTaskResult \<Rightarrow> progress_sel \<Rightarrow> string option \<Rightarrow> bool \<Rightarrow> peerTask
     \<Rightarrow> string option \<times> peerTask" where
  "ReportPieceResult dc result sel cbDone received pt =
     (if \<not> pr_Success (pieceResult result) then
        (let pr = (pieceResult result)\<lparr>pr_FinishedCount := Settled (readyPieces pt)\<rparr>;
             pt1 = Send pr pt
         in (None, send_failedPieceCh (pr_PieceNum pr) pt1))
      else if IsSet (readyPieces pt) (pr_PieceNum (pieceResult result)) then (None, pt)
      else
        (let pt1 = pt\<lparr>readyPieces := Set_bit (readyPieces pt) (pr_PieceNum (pieceResult result)),
                      completedLength := completedLength pt + ucast (RangeSize (piece result))\<rparr>;
             pr = (pieceResult result)\<lparr>pr_FinishedCount := Settled (readyPieces pt1)\<rparr>;
             pt2 = Send pr pt1;
             p = \<lparr> State = \<lparr>ps_Success = pr_Success pr, ps_Code = pr_Code pr, ps_Msg = ''downloading''\<rparr>,
                   fp_TaskID = taskID pt2, fp_PeerID = peerID pt2,
                   fp_ContentLength = contentLength pt2,
                   fp_CompletedLength = completedLength pt2, PeerTaskDone = False \<rparr>
         in case sel of
              ContextDone e \<Rightarrow> (Some e, pt2)
            | ProgressStopped \<Rightarrow>
                (if \<not> isCompleted pt2 then (None, pt2) else finish dc cbDone received pt2)
            | ProgressSent \<Rightarrow>
                (let pt3 = pt2\<lparr>progress := progress pt2 @ [p]\<rparr>
                 in if \<not> isCompleted pt3 then (None, pt3) else finish dc cbDone received pt3)))"

subsection \<open>\<^verbatim>\<open>SetContentLength\<close>, \<^verbatim>\<open>backSource\<close>, \<^verbatim>\<open>AddTraffic\<close>\<close>

definition SetContentLength ::
  "dfcodes \<Rightarrow> int64 \<Rightarrow> string option \<Rightarrow> bool \<Rightarrow> peerTask \<Rightarrow> string option \<times> peerTask" where
  "SetContentLength dc i cbDone received pt =
     (let pt1 = pt\<lparr>contentLength := i\<rparr>
      in if \<not> isCompleted pt1 then (Some ''SetContentLength should call after task completed'', pt1)
         else finish dc cbDone received pt1)"

text \<open>
  \<^verbatim>\<open>filePeerTask.backSource\<close>. \<open>dsErr\<close> is the error \<^verbatim>\<open>pieceManager.DownloadSource\<close>
  returned; what the download itself reports to the task (pieces, content length) are
  calls of \<^verbatim>\<open>ReportPieceResult\<close> and \<^verbatim>\<open>SetContentLength\<close> of their own. At most one of
  the two bodies runs in one call, so one \<open>received\<close> serves both.
\<close>

definition backSource ::
  "dfcodes \<Rightarrow> string option \<Rightarrow> string option \<Rightarrow> bool \<Rightarrow> peerTask \<Rightarrow> peerTask" where
  "backSource dc dsErr cbDone received pt =
     (let pt1 = pt\<lparr>downloadSourceCalls := Suc (downloadSourceCalls pt)\<rparr>
      in case dsErr of
           Some e \<Rightarrow> cleanUnfinished received (pt1\<lparr>failedReason := e\<rparr>)
         | None \<Rightarrow> cleanUnfinished received (snd (finish dc cbDone received pt1)))"

definition AddTraffic :: "int64 \<Rightarrow> peerTask \<Rightarrow> peerTask" where
  "AddTraffic n pt = pt\<lparr>usedTraffic := usedTraffic pt + n\<rparr>"

subsection \<open>The coordinator loop: \<^verbatim>\<open>receivePeerPacket\<close>\<close>

text \<open>
  The \<^verbatim>\<open>switch\<close> tries its cases from the top. Every matching case stores the packet's
  code (the \<^verbatim>\<open>SchedPeerGone\<close> case stores the constant it has just compared equal to it).
\<close>

definition isExitPeerPacketCode :: "dfcodes \<Rightarrow> PeerPacket \<Rightarrow> peerTask \<Rightarrow> bool \<times> peerTask" where
  "isExitPeerPacketCode dc pp pt =
     (if pp_Code pp \<in> {ResourceLacked dc, BadRequest dc, PeerTaskNotFound dc, UnknownError dc,
                        RequestTimeOut dc}
      then (True, pt\<lparr>failedCode := pp_Code pp, failedReason := exitReason (pp_Code pp)\<rparr>)
      else if pp_Code pp = SchedError dc
      then (True, pt\<lparr>failedCode := pp_Code pp, failedReason := exitReason (pp_Code pp)\<rparr>)
      else if pp_Code pp = SchedPeerGone dc
      then (True, pt\<lparr>failedReason := reasonPeerGoneFromScheduler, failedCode := SchedPeerGone dc\<rparr>)
      else if pp_Code pp \<in> {CdnError dc, CdnTaskRegistryFail dc, CdnTaskDownloadFail dc}
      then (True, pt\<lparr>failedCode := pp_Code pp, failedReason := exitReason (pp_Code pp)\<rparr>)
      else (False, pt))"

text \<open>
  How one pass of a loop ends: with \<^verbatim>\<open>continue\<close> (or by reaching the end of the body),
  with \<^verbatim>\<open>break\<close> out of the loop, or with \<^verbatim>\<open>return\<close>.
\<close>

datatype loop_ctl = Continue | Break | Return

text \<open>
  Which case of a \<^verbatim>\<open>select\<close> fires depends on the other goroutines and on time, so it is
  an argument of the model. \<open>pre_sel\<close> is the \<^verbatim>\<open>select\<close> at the top of the loop, \<open>ready_sel\<close>
  the one at its end; there the send case can fire only while the buffer of
  \<^verbatim>\<open>peerPacketReady\<close> (capacity 1) has room, and the signal is dropped otherwise.
\<close>

datatype pre_sel = PreContextDone | PreDone | PreDefault

datatype ready_sel = ReadySend | ReadyContextDone | ReadyDone | ReadyDefault

definition signalPeerPacketReady :: "ready_sel \<Rightarrow> peerTask \<Rightarrow> panic + loop_ctl \<times> peerTask" where
  "signalPeerPacketReady sel pt =
     (case sel of
        ReadySend \<Rightarrow>
          (if cb_closed (peerPacketReady pt) then Inl SendOnClosedChannel
           else if cb_len (peerPacketReady pt) < 1
           then Inr (Continue, pt\<lparr>peerPacketReady := (peerPacketReady pt)\<lparr>cb_len := Suc (cb_len (peerPacketReady pt))\<rparr>\<rparr>)
           else Inr (Continue, pt))
      | ReadyContextDone \<Rightarrow> Inr (Break, pt)
      | ReadyDone \<Rightarrow> Inr (Break, pt)
      | ReadyDefault \<Rightarrow> Inr (Continue, pt))"

text \<open>
  What the loop does with a packet that \<^verbatim>\<open>Recv\<close> returned without error. The reads of
  \<^verbatim>\<open>peerPacket.MainPeer.PeerId\<close> after the empty-peers guard dereference \<^verbatim>\<open>MainPeer\<close>;
  nothing in \<^verbatim>\<open>receivePeerPacket\<close> recovers from a panic.
\<close>

definition handlePeerPacket ::
  "dfcodes \<Rightarrow> PeerPacket \<Rightarrow> ready_sel \<Rightarrow> peerTask \<Rightarrow> panic + loop_ctl \<times> peerTask" where
  "handlePeerPacket dc pp sel pt =
     (if pp_Code pp \<noteq> Success dc then
        (case isExitPeerPacketCode dc pp pt of
           (True, pt1) \<Rightarrow> Inr (Break, pt1\<lparr>cancelled := True\<rparr>)
         | (False, pt1) \<Rightarrow> Inr (Continue, pt1))
      else if MainPeer pp = None \<and> StealPeers pp = None then Inr (Continue, pt)
      else
        (case MainPeer pp of
           None \<Rightarrow> Inl NilPointerDereference
         | Some mainPeer \<Rightarrow>
             signalPeerPacketReady sel
               (pt\<lparr>peerPacket := Some pp, pieceParallelCount := ParallelCount pp\<rparr>)))"

text \<open>One pass of the loop of \<^verbatim>\<open>receivePeerPacket\<close>; \<open>net\<close> is what the scheduler answers.\<close>

definition receivePeerPacket ::
  "dfcodes \<Rightarrow> pre_sel \<Rightarrow> recv_result \<Rightarrow> ready_sel \<Rightarrow> peerTask \<Rightarrow> panic + loop_ctl \<times> peerTask" where
  "receivePeerPacket dc pre net sel pt =
     (case pre of
        PreContextDone \<Rightarrow> Inr (Break, pt)
      | PreDone \<Rightarrow> Inr (Break, pt)
      | PreDefault \<Rightarrow>
          (case Recv dc net pt of
             RecvEOF \<Rightarrow> Inr (Break, pt)
           | RecvDfError c msg \<Rightarrow>
               (let pt1 = pt\<lparr>failedCode := UnknownError dc\<rparr>
                in if c = SchedNeedBackSource dc then
                     (if cb_closed (peerPacketReady pt1) then Inl CloseOfClosedChannel
                      else Inr (Return, pt1\<lparr>needBackSource := True,
                                  peerPacketReady := (peerPacketReady pt1)\<lparr>cb_closed := True\<rparr>\<rparr>))
                   else Inr (Break, pt1\<lparr>failedCode := c, failedReason := msg, cancelled := True\<rparr>))
           | RecvError e \<Rightarrow> Inr (Break, pt\<lparr>failedCode := UnknownError dc, cancelled := True\<rparr>)
           | RecvPacket pp \<Rightarrow> handlePeerPacket dc pp sel pt))"

subsection \<open>The pull loop: \<^verbatim>\<open>waitFirstPeerPacket\<close> and \<^verbatim>\<open>pullPiecesFromPeers\<close>\<close>

text \<open>
  The three cases of the \<^verbatim>\<open>select\<close> in \<^verbatim>\<open>waitFirstPeerPacket\<close>: the context is done (with
  \<^verbatim>\<open>ctx.Err()\<close>, if any), a value or the close of \<^verbatim>\<open>peerPacketReady\<close> arrives, or
  \<^verbatim>\<open>ScheduleTimeout\<close> elapses. In the last case \<^verbatim>\<open>pt.backSource()\<close> is the bound
  \<^verbatim>\<open>filePeerTask.backSource\<close>, whose arguments are as above.
\<close>

datatype first_event =
    FirstContextDone "string option"
  | FirstPeerPacketReady
  | FirstTimeout

definition recv_peerPacketReady :: "peerTask \<Rightarrow> peerTask" where
  "recv_peerPacketReady pt =
     pt\<lparr>peerPacketReady := (peerPacketReady pt)\<lparr>cb_len := cb_len (peerPacketReady pt) - 1\<rparr>\<rparr>"

definition waitFirstPeerPacket ::
  "dfcodes \<Rightarrow> first_event \<Rightarrow> string option \<Rightarrow> string option \<Rightarrow> bool \<Rightarrow> peerTask
     \<Rightarrow> panic + bool \<times> peerTask" where
  "waitFirstPeerPacket dc ev dsErr cbDone received pt =
     (case ev of
        FirstContextDone err \<Rightarrow>
          (case err of
             Some e \<Rightarrow>
               (if failedReason pt = failedReasonNotSet then Inr (False, pt\<lparr>failedReason := e\<rparr>)
                else Inr (False, pt))
           | None \<Rightarrow> Inr (False, pt))
      | FirstPeerPacketReady \<Rightarrow>
          (case peerPacket pt of
             None \<Rightarrow> Inl NilInterfaceConversion
           | Some pp \<Rightarrow> Inr (True, recv_peerPacketReady pt))
      | FirstTimeout \<Rightarrow>
          (let pt1 = (if DisableAutoBackSource pt
                      then pt\<lparr>failedReason := reasonScheduleTimeout,
                              failedCode := ClientScheduleTimeout dc\<rparr>
                      else pt);
               pt2 = pt1\<lparr>needBackSource := True\<rparr>
           in Inr (False, backSource dc dsErr cbDone received pt2)))"

text \<open>
  The \<^verbatim>\<open>select\<close> that opens each pass of the loop of \<^verbatim>\<open>pullPiecesFromPeers\<close>, with the
  loop's variables \<open>num\<close> and \<open>limit\<close>. The case that receives a failed piece can fire
  only while one is queued.
\<close>

datatype pull_event =
    PullDone
  | PullContextDone string
  | PullFailedPiece
  | PullDefault

definition pullPiecesFromPeers_select ::
  "dfcodes \<Rightarrow> pull_event \<Rightarrow> int32 \<times> int32 \<Rightarrow> peerTask \<Rightarrow> loop_ctl \<times> (int32 \<times> int32) \<times> peerTask" where
  "pullPiecesFromPeers_select dc ev nl pt =
     (case ev of
        PullDone \<Rightarrow> (Break, nl, pt)
      | PullContextDone ctxErr \<Rightarrow>
          (if \<not> peerTaskDone pt then
             (if failedCode pt = failedCodeNotSet then
                (let pt1 = pt\<lparr>failedReason := reasonContextCanceled,
                                failedCode := ClientContextCanceled dc\<rparr>
                 in (Break, nl, pt1\<lparr>callbacks := callbacks pt1 @ [CallFail (failedCode pt1) ctxErr]\<rparr>))
              else (Break, nl, pt\<lparr>callbacks := callbacks pt @ [CallFail (failedCode pt) (failedReason pt)]\<rparr>))
           else (Break, nl, pt))
      | PullFailedPiece \<Rightarrow>
          (case ci_buf (failedPieceCh pt) of
             [] \<Rightarrow> (Continue, nl, pt)
           | failed # rest \<Rightarrow>
               (Continue, (failed, 1), pt\<lparr>failedPieceCh := (failedPieceCh pt)\<lparr>ci_buf := rest\<rparr>\<rparr>))
      | PullDefault \<Rightarrow> (Continue, nl, pt))"

text \<open>
  \<^verbatim>\<open>waitAvailablePeerPacket\<close>, which the loop calls when no peer gave piece metadata. The
  receive from \<^verbatim>\<open>peerPacketReady\<close> yields a value, or \<^verbatim>\<open>ok = false\<close> once the coordinator
  has closed the channel. \<open>nxt\<close> is what \<^verbatim>\<open>pt.getNextPieceNum(0)\<close> returns.
\<close>

datatype available_event =
    AvailableDone
  | AvailableContextDone
  | AvailablePeerPacket
  | AvailableClosed
  | AvailableTimeout

definition waitAvailablePeerPacket ::
  "dfcodes \<Rightarrow> available_event \<Rightarrow> int32 \<Rightarrow> string option \<Rightarrow> string option \<Rightarrow> bool \<Rightarrow> peerTask
     \<Rightarrow> panic + (int32 \<times> bool) \<times> peerTask" where
  "waitAvailablePeerPacket dc ev nxt dsErr cbDone received pt =
     (case ev of
        AvailableDone \<Rightarrow> Inr ((- 1, False), pt)
      | AvailableContextDone \<Rightarrow>
          (if \<not> peerTaskDone pt \<and> failedCode pt = failedCodeNotSet
           then Inr ((- 1, False), pt\<lparr>failedReason := reasonContextCanceled,
                                      failedCode := ClientContextCanceled dc\<rparr>)
           else Inr ((- 1, False), pt))
      | AvailablePeerPacket \<Rightarrow>
          (case peerPacket pt of
             None \<Rightarrow> Inl NilInterfaceConversion
           | Some pp \<Rightarrow> Inr ((nxt, True), recv_peerPacketReady pt))
      | AvailableClosed \<Rightarrow>
          (if DisableAutoBackSource pt
           then Inr ((- 1, False), pt\<lparr>failedReason := reasonReScheduleTimeout,
                                      failedCode := ClientScheduleTimeout dc\<rparr>)
           else Inr ((- 1, False),
                     backSource dc dsErr cbDone received (pt\<lparr>needBackSource := True\<rparr>)))
      | AvailableTimeout \<Rightarrow>
          (let pt1 = (if DisableAutoBackSource pt
                      then pt\<lparr>failedReason := reasonReScheduleTimeout,
                              failedCode := ClientScheduleTimeout dc\<rparr>
                      else pt);
               pt2 = pt1\<lparr>needBackSource := True\<rparr>
           in Inr ((- 1, False), backSource dc dsErr cbDone received pt2)))"

text \<open>
  \<^verbatim>\<open>waitFailedPiece\<close>, which the loop calls once every piece is requested. A failed piece
  is taken off the queue and the function returns \<open>-1\<close> and true.
\<close>

datatype failed_event = FailedDone | FailedContextDone | FailedPiece

definition waitFailedPiece :: "dfcodes \<Rightarrow> failed_event \<Rightarrow> peerTask \<Rightarrow> (int32 \<times> bool) \<times> peerTask" where
  "waitFailedPiece dc ev pt =
     (if isCompleted pt then ((- 1, False), pt)
      else
        (case ev of
           FailedDone \<Rightarrow> ((- 1, False), pt)
         | FailedContextDone \<Rightarrow>
             (if \<not> peerTaskDone pt \<and> failedCode pt = failedCodeNotSet
              then ((- 1, False), pt\<lparr>failedReason := reasonContextCanceled,
                                      failedCode := ClientContextCanceled dc\<rparr>)
              else ((- 1, False), pt))
         | FailedPiece \<Rightarrow>
             ((- 1, True),
              pt\<lparr>failedPieceCh := (failedPieceCh pt)\<lparr>ci_buf := tl (ci_buf (failedPieceCh pt))\<rparr>\<rparr>)))"

text \<open>
  The deferred function of \<^verbatim>\<open>pullPiecesFromPeers\<close>, which runs on every way out:
  \<^verbatim>\<open>close(pt.failedPieceCh)\<close>, then \<^verbatim>\<open>cleanUnfinishedFunc()\<close>, bound to \<^verbatim>\<open>cleanUnfinished\<close>.
\<close>

definition pullPiecesFromPeers_exit :: "bool \<Rightarrow> peerTask \<Rightarrow> panic + peerTask" where
  "pullPiecesFromPeers_exit received pt =
     (if ci_closed (failedPieceCh pt) then Inl CloseOfClosedChannel
      else Inr (cleanUnfinished received (pt\<lparr>failedPieceCh := (failedPieceCh pt)\<lparr>ci_closed := True\<rparr>\<rparr>)))"

text \<open>
  \<^verbatim>\<open>pullPiecesFromPeers\<close> up to the first pass of its loop: when \<^verbatim>\<open>waitFirstPeerPacket\<close>
  returns false the function returns through its deferred function; \<open>received'\<close> is the
  \<open>received\<close> of that second call of \<^verbatim>\<open>cleanUnfinished\<close>. The boolean is true when the
  first packet arrived and the loop starts.
\<close>

definition pullPiecesFromPeers_first ::
  "dfcodes \<Rightarrow> first_event \<Rightarrow> string option \<Rightarrow> string option \<Rightarrow> bool \<Rightarrow> bool \<Rightarrow> peerTask
     \<Rightarrow> panic + bool \<times> peerTask" where
  "pullPiecesFromPeers_first dc ev dsErr cbDone received received' pt =
     (case waitFirstPeerPacket dc ev dsErr cbDone received pt of
        Inl p \<Rightarrow> Inl p
      | Inr (True, pt1) \<Rightarrow> Inr (True, pt1)
      | Inr (False, pt1) \<Rightarrow>
          (case pullPiecesFromPeers_exit received' pt1 of
             Inl p \<Rightarrow> Inl p
           | Inr pt2 \<Rightarrow> Inr (False, pt2)))"

subsection \<open>Fetching piece metadata and dispatching pieces\<close>

record PiecePacket =
  pk_TaskId :: string
  pk_DstPid :: string
  pk_DstAddr :: string
  PieceInfos :: "PieceInfo list"
  TotalPiece :: int32
  pk_ContentLength :: int64

text \<open>
  The dynamic types of the \<^verbatim>\<open>error\<close> values this code tells apart: a \<^verbatim>\<open>*dferrors.DfError\<close>
  with its code, an error with a gRPC status code, the two sentinel errors, any other.
\<close>

datatype go_error =
    DfError code string
  | GRPCStatus "32 word" string
  | errPeerPacketChanged
  | ErrEmptyValue
  | OtherError string

definition codes_Canceled :: "32 word" where
  "codes_Canceled = 1"

definition codes_Unauthenticated :: "32 word" where
  "codes_Unauthenticated = 16"

text \<open>
  One pass of \<^verbatim>\<open>preparePieceTasksByPeer\<close> from the label \<^verbatim>\<open>retry\<close>: \<open>got\<close> is what
  \<^verbatim>\<open>getPieceTasks\<close> returned and \<open>current\<close> says whether \<^verbatim>\<open>curPeerPacket\<close> is still the
  stored packet. The result \<open>None\<close> is \<^verbatim>\<open>goto retry\<close>.
\<close>

definition preparePieceTasksByPeer ::
  "dfcodes \<Rightarrow> bool \<Rightarrow> DestPeer option \<Rightarrow> go_error + PiecePacket \<Rightarrow> peerTask
     \<Rightarrow> (go_error + PiecePacket) option \<times> peerTask" where
  "preparePieceTasksByPeer dc current peer got pt =
     (case peer of
        None \<Rightarrow> (Some (Inl (OtherError ''empty peer'')), pt)
      | Some p \<Rightarrow>
          (case got of
             Inr pk \<Rightarrow> (Some (Inr pk), pt)
           | Inl err \<Rightarrow>
               (if err = errPeerPacketChanged then (Some (Inl err), pt)
                else if (case err of GRPCStatus c m \<Rightarrow> c = codes_Canceled | _ \<Rightarrow> False)
                then (Some (Inl err), pt)
                else
                  (let code = (case err of
                                 DfError c m \<Rightarrow>
                                   if codes_Unauthenticated < c then c else ClientPieceRequestFail dc
                               | _ \<Rightarrow> ClientPieceRequestFail dc);
                       pt1 = Send \<lparr> pr_TaskId = taskID pt, pr_SrcPid = peerID pt,
                                     pr_DstPid = PeerId p, pr_PieceNum = 0, pr_Success = False,
                                     pr_Code = code, pr_FinishedCount = - 1 \<rparr> pt
                   in if code = CdnTaskNotFound dc \<and> current then (None, pt1)
                      else (Some (Inl err), pt1)))))"

text \<open>
  One call of the closure that \<^verbatim>\<open>getPieceTasks\<close> hands to \<^verbatim>\<open>retry.Run\<close>: \<open>rpc\<close> is what
  \<^verbatim>\<open>dfclient.GetPieceTasks\<close> returned. The result is the new value of \<^verbatim>\<open>peerPacketChanged\<close>
  and the closure's three results (value, cancel, error). Comparing the main peers
  dereferences both packets; a panic there unwinds to \<^verbatim>\<open>preparePieceTasks\<close>, which recovers.
\<close>

definition mainPeerChanged :: "PeerPacket \<Rightarrow> peerTask \<Rightarrow> panic + bool" where
  "mainPeerChanged curPeerPacket pt =
     (case peerPacket pt of
        None \<Rightarrow> Inl NilInterfaceConversion
      | Some lastPeerPacket \<Rightarrow>
          (case (MainPeer curPeerPacket, MainPeer lastPeerPacket) of
             (Some a, Some b) \<Rightarrow> Inr (PeerId a \<noteq> PeerId b)
           | _ \<Rightarrow> Inl NilPointerDereference))"

definition getPieceTasks ::
  "dfcodes \<Rightarrow> PeerPacket \<Rightarrow> DestPeer \<Rightarrow> go_error + PiecePacket \<Rightarrow> peerTask
     \<Rightarrow> (panic + bool \<times> PiecePacket option \<times> bool \<times> go_error option) \<times> peerTask" where
  "getPieceTasks dc curPeerPacket peer rpc pt =
     (case rpc of
        Inl getErr \<Rightarrow>
          (case mainPeerChanged curPeerPacket pt of
             Inl p \<Rightarrow> (Inl p, pt)
           | Inr True \<Rightarrow> (Inr (True, None, True, None), pt)
           | Inr False \<Rightarrow> (Inr (False, None, True, Some getErr), pt))
      | Inr pp \<Rightarrow>
          (if length (PieceInfos pp) = 0 then
             (let pt1 = Send \<lparr> pr_TaskId = taskID pt, pr_SrcPid = peerID pt,
                                pr_DstPid = PeerId peer, pr_PieceNum = 0, pr_Success = False,
                                pr_Code = ClientWaitPieceReady dc,
                                pr_FinishedCount = Settled (readyPieces pt) \<rparr> pt
              in case mainPeerChanged curPeerPacket pt1 of
                   Inl p \<Rightarrow> (Inl p, pt1)
                 | Inr True \<Rightarrow> (Inr (True, None, True, None), pt1)
                 | Inr False \<Rightarrow> (Inr (False, None, False, Some ErrEmptyValue), pt1))
           else (Inr (False, Some pp, False, None), pt)))"

text \<open>Which case of the \<^verbatim>\<open>select\<close> in \<^verbatim>\<open>dispatchPieceRequest\<close> fires for a piece.\<close>

datatype dispatch_sel = DispatchSent | DispatchDone | DispatchContextDone

text \<open>The body of the loop, for one piece.\<close>

definition dispatchPiece :: "dfcodes \<Rightarrow> PieceInfo \<Rightarrow> dispatch_sel \<Rightarrow> peerTask \<Rightarrow> peerTask" where
  "dispatchPiece dc pc sel pt =
     (let pt1 = (if \<not> IsSet (requestedPieces pt) (PieceNum pc)
                 then pt\<lparr>requestedPieces := Set_bit (requestedPieces pt) (PieceNum pc)\<rparr>
                 else pt)
      in case sel of
           DispatchContextDone \<Rightarrow>
             (if \<not> peerTaskDone pt1 \<and> failedCode pt1 = failedCodeNotSet
              then pt1\<lparr>failedReason := reasonContextCanceled,
                       failedCode := ClientContextCanceled dc\<rparr>
              else pt1)
         | _ \<Rightarrow> pt1)"

fun dispatchPieceRequest :: "dfcodes \<Rightarrow> (PieceInfo \<times> dispatch_sel) list \<Rightarrow> peerTask \<Rightarrow> peerTask" where
  "dispatchPieceRequest dc [] pt = pt"
| "dispatchPieceRequest dc ((pc, sel) # rest) pt =
     dispatchPieceRequest dc rest (dispatchPiece dc pc sel pt)"

text \<open>
  The branch of \<^verbatim>\<open>downloadPieceWorker\<close> taken when the rate limiter returns an error:
  the worker reports the piece as failed through \<^verbatim>\<open>ReportPieceResult\<close>, records the
  failure and cancels the task. (A failed report reads none of \<^verbatim>\<open>ReportPieceResult\<close>'s
  last three arguments.)
\<close>

definition downloadPieceWorker_limiterError ::
  "dfcodes \<Rightarrow> string \<Rightarrow> PieceInfo \<Rightarrow> string \<Rightarrow> peerTask \<Rightarrow> peerTask" where
  "downloadPieceWorker_limiterError dc dstPid pc err pt =
     (let result = \<lparr> piece = pc,
                      pieceResult = \<lparr> pr_TaskId = taskID pt, pr_SrcPid = peerID pt,
                                       pr_DstPid = dstPid, pr_PieceNum = PieceNum pc,
                                       pr_Success = False, pr_Code = ClientRequestLimitFail dc,
                                       pr_FinishedCount = 0 \<rparr> \<rparr>;
          pt1 = snd (ReportPieceResult dc result ProgressSent None False pt)
      in pt1\<lparr>failedReason := err, failedCode := ClientRequestLimitFail dc, cancelled := True\<rparr>)"

subsection \<open>Creating and starting the task: \<^verbatim>\<open>newFilePeerTask\<close>, \<^verbatim>\<open>Start\<close>\<close>

record UrlMeta =
  Digest :: string
  Tag :: string
  Range :: string
  Filter :: string

record PeerTaskRequest =
  Url :: string
  UrlMeta :: UrlMeta
  rq_PeerId :: string

datatype SizeScope = NORMAL | SMALL | TINY

datatype DirectPiece =
    NoDirectPiece
  | RegisterResult_SinglePiece SinglePiece
  | RegisterResult_PieceContent "8 word list"

record RegisterResult =
  rr_TaskId :: string
  rr_SizeScope :: SizeScope
  rr_DirectPiece :: DirectPiece

record TinyData =
  td_TaskID :: string
  td_PeerID :: string
  Content :: "8 word list"

text \<open>
  \<^verbatim>\<open>schedulerClient.ReportPieceResult\<close>: the dummy client returns its stream and no error;
  the real client returns the error \<open>reportErr\<close> or the scheduler's stream.
\<close>

definition client_ReportPieceResult :: "SchedulerClient \<Rightarrow> string option \<Rightarrow> string + PeerPacketStream" where
  "client_ReportPieceResult client reportErr =
     (case client of
        dummySchedulerClient \<Rightarrow> Inr dummyPeerPacketStream
      | realSchedulerClient \<Rightarrow>
          (case reportErr of Some e \<Rightarrow> Inl e | None \<Rightarrow> Inr schedulerStream))"

text \<open>
  \<^verbatim>\<open>newFilePeerTask\<close> from the check \<^verbatim>\<open>result == nil\<close> on, for a result that is not \<^verbatim>\<open>nil\<close>.
\<close>

definition newFilePeerTask_registered ::
  "dfcodes \<Rightarrow> PeerTaskRequest \<Rightarrow> bool \<Rightarrow> SchedulerClient \<Rightarrow> RegisterResult \<Rightarrow> bool
     \<Rightarrow> string option \<Rightarrow> string + peerTask option \<times> TinyData option" where
  "newFilePeerTask_registered dc request nbs client result disableAutoBackSource reportErr =
     (if \<not> nbs \<and> rr_SizeScope result = TINY then
        (case rr_DirectPiece result of
           RegisterResult_PieceContent content \<Rightarrow>
             Inr (None, Some \<lparr> td_TaskID = rr_TaskId result, td_PeerID = rq_PeerId request,
                                Content = content \<rparr>)
         | _ \<Rightarrow> Inl ''scheduler return tiny piece but can not parse piece content'')
      else
        (let single = (if \<not> nbs \<and> rr_SizeScope result = SMALL
                       then (case rr_DirectPiece result of
                               RegisterResult_SinglePiece sp \<Rightarrow> Some sp
                             | _ \<Rightarrow> None)
                       else None)
         in case client_ReportPieceResult client reportErr of
              Inl err \<Rightarrow> Inl err
            | Inr stream \<Rightarrow>
                Inr (Some \<lparr> needBackSource = nbs,
                             DisableAutoBackSource = disableAutoBackSource,
                             peerID = rq_PeerId request,
                             taskID = rr_TaskId result,
                             totalPiece = - 1,
                             contentLength = - 1,
                             completedLength = 0,
                             usedTraffic = 0,
                             singlePiece = single,
                             schedulerClient = client,
                             peerPacketStream = stream,
                             peerPacket = None,
                             peerPacketReady = \<lparr>cb_closed = False, cb_len = 0\<rparr>,
                             pieceParallelCount = 0,
                             done_ch = False,
                             peerTaskDone = False,
                             once = False,
                             failedPieceCh = \<lparr>ci_closed = False, ci_buf = []\<rparr>,
                             failedReason = failedReasonNotSet,
                             failedCode = UnknownError dc,
                             readyPieces = NewBitmap,
                             requestedPieces = NewBitmap,
                             progressStopCh = False,
                             cancelled = False,
                             sent = [],
                             progress = [],
                             callbacks = [],
                             downloadSourceCalls = 0,
                             recovered = [] \<rparr>, None)))"

text \<open>
  \<^verbatim>\<open>idgen.TaskID\<close> is not among the sources: it is the parameter \<open>TaskID\<close>. \<open>registered\<close> is
  what \<^verbatim>\<open>schedulerClient.RegisterPeerTask\<close> returned: an error, or a result that may be
  \<^verbatim>\<open>nil\<close>. After a failed registration the result holds the generated task id and zero
  values.
\<close>

definition newFilePeerTask ::
  "dfcodes \<Rightarrow> (string \<Rightarrow> UrlMeta \<Rightarrow> string) \<Rightarrow> PeerTaskRequest \<Rightarrow> string + RegisterResult option
     \<Rightarrow> bool \<Rightarrow> string option \<Rightarrow> string + peerTask option \<times> TinyData option" where
  "newFilePeerTask dc TaskID request registered disableAutoBackSource reportErr =
     (case registered of
        Inl err \<Rightarrow>
          (if disableAutoBackSource then Inl err
           else newFilePeerTask_registered dc request True dummySchedulerClient
                  \<lparr> rr_TaskId = TaskID (Url request) (UrlMeta request), rr_SizeScope = NORMAL,
                    rr_DirectPiece = NoDirectPiece \<rparr>
                  disableAutoBackSource reportErr)
      | Inr None \<Rightarrow> Inl ''step 1: peer register result is nil''
      | Inr (Some result) \<Rightarrow>
          newFilePeerTask_registered dc request False realSchedulerClient result
            disableAutoBackSource reportErr)"

text \<open>
  \<^verbatim>\<open>Start\<close> makes the task's context and starts goroutines; the result names them.
\<close>

datatype started = GoBackSource | GoPullSinglePiece | GoReceiveAndPull

definition Start :: "peerTask \<Rightarrow> started \<times> peerTask" where
  "Start pt =
     (let pt1 = pt\<lparr>cancelled := False\<rparr>
      in if needBackSource pt1
         then (GoBackSource, pt1\<lparr>contentLength := - 1, callbacks := callbacks pt1 @ [CallInit]\<rparr>)
         else if singlePiece pt1 \<noteq> None then (GoPullSinglePiece, pt1)
         else (GoReceiveAndPull, pt1))"

subsection \<open>Runs of a task\<close>

text \<open>
  The goroutines of a task call the functions above, each with the values its collaborators
  and the scheduler of goroutines supply. A run is a sequence of such calls, each running
  to its end before the next starts: \<^verbatim>\<open>pt.lock\<close> makes the test and the update of
  \<^verbatim>\<open>ReportPieceResult\<close> one step, and \<^verbatim>\<open>sync.Once\<close> makes the callers of \<^verbatim>\<open>finish\<close> and
  \<^verbatim>\<open>cleanUnfinished\<close> wait for the body that runs. A panic that nothing recovers ends the
  run, with the task as that call found it.
\<close>

datatype op =
    Op_ReportPieceResult pieceTaskResult progress_sel "string option" bool
  | Op_finish "string option" bool
  | Op_cleanUnfinished bool
  | Op_SetContentLength int64 "string option" bool
  | Op_backSource "string option" "string option" bool
  | Op_DoneCallback
  | Op_AddTraffic int64
  | Op_Start
  | Op_receivePeerPacket pre_sel recv_result ready_sel
  | Op_pullPiecesFromPeers_first first_event "string option" "string option" bool bool
  | Op_pullPiecesFromPeers_select pull_event "int32 \<times> int32"
  | Op_pullPiecesFromPeers_exit bool
  | Op_preparePieceTasksByPeer bool "DestPeer option" "go_error + PiecePacket"
  | Op_getPieceTasks PeerPacket DestPeer "go_error + PiecePacket"
  | Op_dispatchPieceRequest "(PieceInfo \<times> dispatch_sel) list"
  | Op_limiterError string PieceInfo string
  | Op_waitAvailablePeerPacket available_event int32 "string option" "string option" bool
  | Op_waitFailedPiece failed_event

fun step :: "dfcodes \<Rightarrow> op \<Rightarrow> peerTask \<Rightarrow> panic + peerTask" where
  "step dc (Op_ReportPieceResult result sel cbDone received) pt =
     Inr (snd (ReportPieceResult dc result sel cbDone received pt))"
| "step dc (Op_finish cbDone received) pt = Inr (snd (finish dc cbDone received pt))"
| "step dc (Op_cleanUnfinished received) pt = Inr (cleanUnfinished received pt)"
| "step dc (Op_SetContentLength i cbDone received) pt =
     Inr (snd (SetContentLength dc i cbDone received pt))"
| "step dc (Op_backSource dsErr cbDone received) pt = Inr (backSource dc dsErr cbDone received pt)"
| "step dc Op_DoneCallback pt = DoneCallback pt"
| "step dc (Op_AddTraffic n) pt = Inr (AddTraffic n pt)"
| "step dc Op_Start pt = Inr (snd (Start pt))"
| "step dc (Op_receivePeerPacket pre net sel) pt =
     (case receivePeerPacket dc pre net sel pt of Inl p \<Rightarrow> Inl p | Inr (ctl, pt1) \<Rightarrow> Inr pt1)"
| "step dc (Op_pullPiecesFromPeers_first ev dsErr cbDone received received') pt =
     (case pullPiecesFromPeers_first dc ev dsErr cbDone received received' pt of
        Inl p \<Rightarrow> Inl p
      | Inr (ok, pt1) \<Rightarrow> Inr pt1)"
| "step dc (Op_pullPiecesFromPeers_select ev nl) pt =
     Inr (snd (snd (pullPiecesFromPeers_select dc ev nl pt)))"
| "step dc (Op_pullPiecesFromPeers_exit received) pt = pullPiecesFromPeers_exit received pt"
| "step dc (Op_preparePieceTasksByPeer current peer got) pt =
     Inr (snd (preparePieceTasksByPeer dc current peer got pt))"
| "step dc (Op_getPieceTasks curPeerPacket peer rpc) pt =
     (case getPieceTasks dc curPeerPacket peer rpc pt of
        (Inl p, pt1) \<Rightarrow> Inr (pt1\<lparr>recovered := recovered pt1 @ [p]\<rparr>)
      | (Inr r, pt1) \<Rightarrow> Inr pt1)"
| "step dc (Op_dispatchPieceRequest reqs) pt = Inr (dispatchPieceRequest dc reqs pt)"
| "step dc (Op_limiterError dstPid pc err) pt =
     Inr (downloadPieceWorker_limiterError dc dstPid pc err pt)"
| "step dc (Op_waitAvailablePeerPacket ev nxt dsErr cbDone received) pt =
     (case waitAvailablePeerPacket dc ev nxt dsErr cbDone received pt of
        Inl p \<Rightarrow> Inl p
      | Inr (r, pt1) \<Rightarrow> Inr pt1)"
| "step dc (Op_waitFailedPiece ev) pt = Inr (snd (waitFailedPiece dc ev pt))"

fun run :: "dfcodes \<Rightarrow> op list \<Rightarrow> peerTask \<Rightarrow> panic option \<times> peerTask" where
  "run dc [] pt = (None, pt)"
| "run dc (x # xs) pt =
     (case step dc x pt of
        Inl p \<Rightarrow> (Some p, pt)
      | Inr pt1 \<Rightarrow> run dc xs pt1)"

subsection \<open>Concrete inputs\<close>

text \<open>
  A request, the task \<^verbatim>\<open>newFilePeerTask\<close> makes of it after a registration of normal size
  scope (with the table \<open>dfcodes_table\<close>), a peer, a packet that names that peer as a
  steal peer only, and the report that piece 0, of 1024 bytes, was downloaded.
\<close>

definition example_request :: PeerTaskRequest where
  "example_request =
     \<lparr> Url = ''http://origin/file'',
       UrlMeta = \<lparr>Digest = [], Tag = [], Range = [], Filter = []\<rparr>,
       rq_PeerId = ''peer-1'' \<rparr>"

definition example_task :: peerTask where
  "example_task =
     \<lparr> needBackSource = False, DisableAutoBackSource = False, peerID = ''peer-1'',
       taskID = ''task-1'', totalPiece = - 1, contentLength = - 1, completedLength = 0,
       usedTraffic = 0, singlePiece = None, schedulerClient = realSchedulerClient,
       peerPacketStream = schedulerStream, peerPacket = None,
       peerPacketReady = \<lparr>cb_closed = False, cb_len = 0\<rparr>, pieceParallelCount = 0,
       done_ch = False, peerTaskDone = False, once = False,
       failedPieceCh = \<lparr>ci_closed = False, ci_buf = []\<rparr>,
       failedReason = failedReasonNotSet, failedCode = UnknownError dfcodes_table,
       readyPieces = NewBitmap, requestedPieces = NewBitmap, progressStopCh = False,
       cancelled = False, sent = [], progress = [], callbacks = [],
       downloadSourceCalls = 0, recovered = [] \<rparr>"

definition example_peer :: DestPeer where
  "example_peer = \<lparr>Ip = ''10.0.0.2'', RpcPort = 65000, PeerId = ''peer-2''\<rparr>"

definition example_packet :: PeerPacket where
  "example_packet =
     \<lparr> pp_TaskId = ''task-1'', pp_SrcPid = ''peer-1'', ParallelCount = 2,
       MainPeer = None, StealPeers = Some [Some example_peer], pp_Code = Success dfcodes_table \<rparr>"

definition example_result :: pieceTaskResult where
  "example_result =
     \<lparr> piece = \<lparr>PieceNum = 0, RangeStart = 0, RangeSize = 1024\<rparr>,
       pieceResult = \<lparr> pr_TaskId = ''task-1'', pr_SrcPid = ''peer-1'', pr_DstPid = ''peer-2'',
                       pr_PieceNum = 0, pr_Success = True, pr_Code = Success dfcodes_table,
                       pr_FinishedCount = 0 \<rparr> \<rparr>"

subsection \<open>Calls that leave the bitmaps alone\<close>

text \<open>
  \<open>quiet counted pt pt'\<close>: from \<open>pt\<close> to \<open>pt'\<close> the ready bitmap, the completed length and the
  stream are unchanged, and the results handed to the scheduler in between all report a
  failure, with the number of ready pieces as finished count if \<open>counted\<close>, and \<open>-1\<close> if not.
\<close>

definition quiet :: "bool \<Rightarrow> peerTask \<Rightarrow> peerTask \<Rightarrow> bool" where
  "quiet counted pt pt' =
     (readyPieces pt' = readyPieces pt \<and> completedLength pt' = completedLength pt \<and>
      peerPacketStream pt' = peerPacketStream pt \<and>
      (\<exists>ms. sent pt' = sent pt @ ms \<and>
            (peerPacketStream pt = dummyPeerPacketStream \<longrightarrow> ms = []) \<and>
            (\<forall>m\<in>set ms. \<not> pr_Success m \<and>
               pr_FinishedCount m = (if counted then Settled (readyPieces pt) else - 1))))"

text \<open>
  \<open>reported n sz pt pt'\<close>: from \<open>pt\<close> to \<open>pt'\<close> the ready bit \<open>n\<close> has been set and \<open>sz\<close> added
  to the completed length; of the results handed to the scheduler in between at most one
  reports a success, that one for piece \<open>n\<close>, and all carry the new number of ready pieces.
\<close>

definition reported :: "int32 \<Rightarrow> uint32 \<Rightarrow> peerTask \<Rightarrow> peerTask \<Rightarrow> bool" where
  "reported n sz pt pt' =
     (readyPieces pt' = Set_bit (readyPieces pt) n \<and>
      completedLength pt' = completedLength pt + ucast sz \<and>
      peerPacketStream pt' = peerPacketStream pt \<and>
      (\<exists>ms. sent pt' = sent pt @ ms \<and>
            (peerPacketStream pt = dummyPeerPacketStream \<longrightarrow> ms = []) \<and>
            length (filter pr_Success ms) \<le> 1 \<and>
            (\<forall>m\<in>set ms. pr_FinishedCount m = Settled (readyPieces pt') \<and>
               (pr_Success m \<longrightarrow> pr_PieceNum m = n))))"

subsection \<open>Kinds of calls\<close>

fun is_report :: "op \<Rightarrow> bool" where
  "is_report (Op_ReportPieceResult r sel c rc) = True"
| "is_report _ = False"


text \<open>
  A piece descriptor is immutable: every report of a piece carries the range size \<open>rs\<close>
  gives for its piece number, and names that number in its result.
\<close>

fun report_ok :: "(int32 \<Rightarrow> uint32) \<Rightarrow> op \<Rightarrow> bool" where
  "report_ok rs (Op_ReportPieceResult r sel c rc) =
     (PieceNum (piece r) = pr_PieceNum (pieceResult r) \<and>
      RangeSize (piece r) = rs (PieceNum (piece r)))"
| "report_ok rs _ = True"

text \<open>The number of successful results for piece \<open>n\<close> handed to the scheduler so far.\<close>

definition successes :: "int32 \<Rightarrow> peerTask \<Rightarrow> nat" where
  "successes n pt = length (filter (\<lambda>m. pr_Success m \<and> pr_PieceNum m = n) (sent pt))"




text \<open>
  \<open>latch_inv pt\<close>: the \<^verbatim>\<open>done\<close> channel is closed exactly when the latch is set, and no
  close of a closed channel has been caught.
\<close>

definition latch_inv :: "peerTask \<Rightarrow> bool" where
  "latch_inv pt = (done_ch pt = once pt \<and> CloseOfClosedChannel \<notin> set (recovered pt))"

section \<open>Properties\<close>

subsection \<open>The constructor and the concrete task\<close>

lemma example_task_new:
  "newFilePeerTask dfcodes_table (\<lambda>url meta. url) example_request
     (Inr (Some \<lparr>rr_TaskId = ''task-1'', rr_SizeScope = NORMAL, rr_DirectPiece = NoDirectPiece\<rparr>))
     False None = Inr (Some example_task, None)"
  by (simp add: newFilePeerTask_def newFilePeerTask_registered_def client_ReportPieceResult_def
      example_task_def example_request_def)

subsection \<open>Completion\<close>

text \<open>
  C6, as the code has it: \<^verbatim>\<open>isCompleted\<close> is true exactly when the completed length equals
  the content length. It reads neither the ready bitmap nor the total piece count, so
  changing them does not change its result.
\<close>

theorem isCompleted_lengths_only:
  "isCompleted pt = (completedLength pt = contentLength pt) \<and>
   isCompleted (pt\<lparr>readyPieces := b, totalPiece := n\<rparr>) = isCompleted pt"
  by (simp add: isCompleted_def)

text \<open>
  C6 as stated fails: a task with four pieces in total, of which one is ready, is completed
  as soon as the two lengths agree.
\<close>

theorem isCompleted_below_total:
  "isCompleted (example_task\<lparr>totalPiece := 4, contentLength := 1024, completedLength := 1024,
                  readyPieces := Set_bit NewBitmap 0\<rparr>) \<and>
   sint (Settled (readyPieces (example_task\<lparr>totalPiece := 4, contentLength := 1024,
                  completedLength := 1024, readyPieces := Set_bit NewBitmap 0\<rparr>)))
     < sint (totalPiece (example_task\<lparr>totalPiece := 4, contentLength := 1024,
                  completedLength := 1024, readyPieces := Set_bit NewBitmap 0\<rparr>))"
  by (simp add: isCompleted_def example_task_def Settled_def Set_bit_def NewBitmap_def)

subsection \<open>The coordinator loop\<close>

text \<open>
  C7: \<^verbatim>\<open>isExitPeerPacketCode\<close> returns true exactly for the ten exit codes. When it does,
  it has stored the packet's code as the failed code and a failed reason, and the loop
  cancels the context and ends; when it does not, it has changed nothing, and the loop goes
  on to the next packet with the task unchanged. (The loop calls it for a code that is not
  \<^verbatim>\<open>Success\<close> only.)
\<close>

theorem isExitPeerPacketCode_exit_set:
  "fst (isExitPeerPacketCode dc pp pt) =
     (pp_Code pp \<in> {ResourceLacked dc, BadRequest dc, PeerTaskNotFound dc, UnknownError dc,
                     RequestTimeOut dc, SchedError dc, SchedPeerGone dc, CdnError dc,
                     CdnTaskRegistryFail dc, CdnTaskDownloadFail dc}) \<and>
   (fst (isExitPeerPacketCode dc pp pt) \<longrightarrow>
      failedCode (snd (isExitPeerPacketCode dc pp pt)) = pp_Code pp \<and>
      failedReason (snd (isExitPeerPacketCode dc pp pt))
        \<in> {exitReason (pp_Code pp), reasonPeerGoneFromScheduler}) \<and>
   (fst (isExitPeerPacketCode dc pp pt) \<and> pp_Code pp \<noteq> Success dc \<longrightarrow>
      handlePeerPacket dc pp sel pt
        = Inr (Break, (snd (isExitPeerPacketCode dc pp pt))\<lparr>cancelled := True\<rparr>)) \<and>
   (\<not> fst (isExitPeerPacketCode dc pp pt) \<longrightarrow>
      snd (isExitPeerPacketCode dc pp pt) = pt \<and>
      (pp_Code pp \<noteq> Success dc \<longrightarrow> handlePeerPacket dc pp sel pt = Inr (Continue, pt)))"
  by (auto simp: isExitPeerPacketCode_def handlePeerPacket_def)

theorem isExitPeerPacketCode_exit_set_witness:
  "fst (isExitPeerPacketCode dfcodes_table (example_packet\<lparr>pp_Code := 5000\<rparr>) example_task) \<and>
   failedCode (snd (isExitPeerPacketCode dfcodes_table (example_packet\<lparr>pp_Code := 5000\<rparr>)
                      example_task)) = 5000 \<and>
   \<not> fst (isExitPeerPacketCode dfcodes_table (example_packet\<lparr>pp_Code := 4001\<rparr>) example_task) \<and>
   pp_Code (example_packet\<lparr>pp_Code := 4001\<rparr>) \<noteq> Success dfcodes_table \<and>
   handlePeerPacket dfcodes_table (example_packet\<lparr>pp_Code := 4001\<rparr>) ReadySend example_task
     = Inr (Continue, example_task)"
proof -
  have a: "fst (isExitPeerPacketCode dfcodes_table (example_packet\<lparr>pp_Code := 5000\<rparr>) example_task)"
    by (simp add: isExitPeerPacketCode_def dfcodes_table_def)
  have b: "\<not> fst (isExitPeerPacketCode dfcodes_table (example_packet\<lparr>pp_Code := 4001\<rparr>) example_task)"
    by (simp add: isExitPeerPacketCode_def dfcodes_table_def)
  have c: "pp_Code (example_packet\<lparr>pp_Code := 4001\<rparr>) \<noteq> Success dfcodes_table"
    by (simp add: dfcodes_table_def)
  from a b c
    isExitPeerPacketCode_exit_set [of dfcodes_table "example_packet\<lparr>pp_Code := 5000\<rparr>" example_task]
    isExitPeerPacketCode_exit_set [of dfcodes_table "example_packet\<lparr>pp_Code := 4001\<rparr>" example_task
      ReadySend]
  show ?thesis by simp
qed

text \<open>
  C10: handling a packet dereferences a \<^verbatim>\<open>nil\<close> main peer exactly when the packet's code is
  \<^verbatim>\<open>Success\<close>, its main peer is \<^verbatim>\<open>nil\<close> and its steal peers are not: the guard skips the
  packet only when both are \<^verbatim>\<open>nil\<close>. A pass of the loop over the real stream hands the
  received packet to this handling, and the handling is free of the dereference when every
  \<^verbatim>\<open>Success\<close> packet has a main peer.
\<close>

theorem receivePeerPacket_nil_main_peer:
  "(handlePeerPacket dc pp sel pt = Inl NilPointerDereference) =
     (pp_Code pp = Success dc \<and> MainPeer pp = None \<and> StealPeers pp \<noteq> None) \<and>
   (pp_Code pp = Success dc \<and> MainPeer pp = None \<and> StealPeers pp = None \<longrightarrow>
      handlePeerPacket dc pp sel pt = Inr (Continue, pt)) \<and>
   (peerPacketStream pt = schedulerStream \<longrightarrow>
      receivePeerPacket dc PreDefault (RecvPacket pp) sel pt = handlePeerPacket dc pp sel pt) \<and>
   ((pp_Code pp = Success dc \<longrightarrow> MainPeer pp \<noteq> None) \<longrightarrow>
      handlePeerPacket dc pp sel pt \<noteq> Inl NilPointerDereference)"
  by (auto simp: handlePeerPacket_def receivePeerPacket_def Recv_def signalPeerPacketReady_def
      split: prod.splits option.splits ready_sel.splits bool.splits)

theorem receivePeerPacket_nil_main_peer_witness:
  "pp_Code example_packet = Success dfcodes_table \<and> MainPeer example_packet = None \<and>
   StealPeers example_packet \<noteq> None \<and> peerPacketStream example_task = schedulerStream \<and>
   receivePeerPacket dfcodes_table PreDefault (RecvPacket example_packet) ReadySend example_task
     = Inl NilPointerDereference"
proof -
  have h: "pp_Code example_packet = Success dfcodes_table \<and> MainPeer example_packet = None \<and>
           StealPeers example_packet \<noteq> None"
    by (simp add: example_packet_def)
  have s: "peerPacketStream example_task = schedulerStream"
    by (simp add: example_task_def)
  from receivePeerPacket_nil_main_peer [of dfcodes_table example_packet ReadySend example_task] h s
  show ?thesis by simp
qed

subsection \<open>What each call does to the bitmaps and the stream\<close>

lemma Send_alt:
  "Send pr pt = pt\<lparr>sent := sent pt @ (if peerPacketStream pt = schedulerStream then [pr] else [])\<rparr>"
  by (cases "peerPacketStream pt") (simp_all add: Send_def)

lemma close_done_alt:
  "close_done pt =
     pt\<lparr>done_ch := True,
        recovered := recovered pt @ (if done_ch pt then [CloseOfClosedChannel] else [])\<rparr>"
  by (simp add: close_done_def)

lemma quiet_refl: "quiet c pt pt"
  by (simp add: quiet_def)

lemma quiet_trans: "quiet c pt pt1 \<Longrightarrow> quiet c pt1 pt2 \<Longrightarrow> quiet c pt pt2"
  by (auto simp: quiet_def)

lemma quiet_finish_body: "quiet True pt (finish_body dc c r pt)"
  by (simp add: quiet_def finish_body_def Send_alt close_done_alt Let_def NewEndPieceResult_def)

lemma quiet_cleanUnfinished_body: "quiet True pt (cleanUnfinished_body r pt)"
  by (simp add: quiet_def cleanUnfinished_body_def Send_alt close_done_alt Let_def NewEndPieceResult_def)

lemma quiet_once: "quiet c pt (pt\<lparr>once := b\<rparr>)"
  by (simp add: quiet_def)

lemma quiet_finish: "quiet True pt (snd (finish dc c r pt))"
  using quiet_trans [OF quiet_once quiet_finish_body]
  by (simp add: finish_def once_Do_def quiet_refl)

lemma quiet_cancelled: "quiet c pt pt' \<Longrightarrow> quiet c pt (pt'\<lparr>cancelled := b\<rparr>)"
  by (simp add: quiet_def)

lemma quiet_cleanUnfinished: "quiet True pt (cleanUnfinished r pt)"
  using quiet_trans [OF quiet_once quiet_cleanUnfinished_body]
  by (simp add: cleanUnfinished_def once_Do_def quiet_refl quiet_cancelled)

lemma quiet_backSource: "quiet True pt (backSource dc d c r pt)"
proof -
  have a: "quiet True pt (pt\<lparr>downloadSourceCalls := Suc (downloadSourceCalls pt)\<rparr>)"
    by (simp add: quiet_def)
  have b: "quiet True pt1 (pt1\<lparr>failedReason := e\<rparr>)" for pt1 e
    by (simp add: quiet_def)
  show ?thesis
    by (auto simp: backSource_def Let_def split: option.splits
        intro: quiet_trans [OF a] quiet_trans [OF b] quiet_trans [OF quiet_finish]
          quiet_cleanUnfinished)
qed

lemma quiet_SetContentLength: "quiet True pt (snd (SetContentLength dc i c r pt))"
proof -
  have a: "quiet True pt (pt\<lparr>contentLength := i\<rparr>)"
    by (simp add: quiet_def)
  show ?thesis
    using a quiet_trans [OF a quiet_finish]
    by (simp add: SetContentLength_def Let_def)
qed

lemma quiet_AddTraffic: "quiet c pt (AddTraffic n pt)"
  by (simp add: quiet_def AddTraffic_def)

lemma quiet_Start: "quiet c pt (snd (Start pt))"
  by (simp add: quiet_def Start_def Let_def)

lemma quiet_DoneCallback: "DoneCallback pt = Inr pt' \<Longrightarrow> quiet c pt pt'"
  by (auto simp: quiet_def DoneCallback_def split: if_splits)

lemma quiet_isExitPeerPacketCode: "quiet c pt (snd (isExitPeerPacketCode dc pp pt))"
  by (simp add: quiet_def isExitPeerPacketCode_def)

lemma quiet_signalPeerPacketReady:
  "signalPeerPacketReady sel pt = Inr (ctl, pt') \<Longrightarrow> quiet c pt pt'"
  by (auto simp: quiet_def signalPeerPacketReady_def split: ready_sel.splits if_splits)

lemma quiet_handlePeerPacket:
  "handlePeerPacket dc pp sel pt = Inr (ctl, pt') \<Longrightarrow> quiet c pt pt'"
proof -
  have a: "quiet c pt (pt\<lparr>peerPacket := Some pp, pieceParallelCount := ParallelCount pp\<rparr>)"
    by (simp add: quiet_def)
  assume h: "handlePeerPacket dc pp sel pt = Inr (ctl, pt')"
  show ?thesis
  proof (cases "pp_Code pp \<noteq> Success dc")
    case True
    with h have "pt' = snd (isExitPeerPacketCode dc pp pt) \<or>
                 pt' = (snd (isExitPeerPacketCode dc pp pt))\<lparr>cancelled := True\<rparr>"
      by (auto simp: handlePeerPacket_def split: prod.splits bool.splits)
    then show ?thesis
      using quiet_isExitPeerPacketCode [of c pt dc pp] by (auto intro: quiet_cancelled)
  next
    case False
    with h show ?thesis
      by (auto simp: handlePeerPacket_def quiet_refl split: option.splits if_splits
          intro: quiet_trans [OF a] quiet_signalPeerPacketReady)
  qed
qed

lemma quiet_receivePeerPacket:
  "receivePeerPacket dc pre net sel pt = Inr (ctl, pt') \<Longrightarrow> quiet c pt pt'"
  by (auto simp: receivePeerPacket_def quiet_refl Let_def
      split: pre_sel.splits recv_result.splits if_splits
      intro: quiet_handlePeerPacket)
    (simp_all add: quiet_def)


lemma quiet_waitFirstPeerPacket:
  "waitFirstPeerPacket dc ev d c r pt = Inr (ok, pt') \<Longrightarrow> quiet True pt pt'"
proof -
  have a: "quiet True pt (pt\<lparr>needBackSource := True\<rparr>)"
    by (simp add: quiet_def)
  have b: "quiet True pt (pt\<lparr>failedReason := reasonScheduleTimeout,
             failedCode := ClientScheduleTimeout dc, needBackSource := True\<rparr>)"
    by (simp add: quiet_def)
  have e: "quiet True pt (pt\<lparr>failedReason := x\<rparr>)" for x
    by (simp add: quiet_def)
  have f: "quiet True pt (recv_peerPacketReady pt)"
    by (simp add: quiet_def recv_peerPacketReady_def)
  assume "waitFirstPeerPacket dc ev d c r pt = Inr (ok, pt')"
  then show ?thesis
    by (auto simp: waitFirstPeerPacket_def Let_def quiet_refl e f
        split: first_event.splits option.splits if_splits
        intro: quiet_trans [OF a quiet_backSource] quiet_trans [OF b quiet_backSource])
qed

lemma quiet_waitAvailablePeerPacket:
  "waitAvailablePeerPacket dc ev nxt d c r pt = Inr (res, pt') \<Longrightarrow> quiet True pt pt'"
proof -
  have a: "quiet True pt (pt\<lparr>needBackSource := True\<rparr>)"
    by (simp add: quiet_def)
  have b: "quiet True pt (pt\<lparr>failedReason := x, failedCode := y, needBackSource := True\<rparr>)" for x y
    by (simp add: quiet_def)
  have e: "quiet True pt (pt\<lparr>failedReason := x, failedCode := y\<rparr>)" for x y
    by (simp add: quiet_def)
  have f: "quiet True pt (recv_peerPacketReady pt)"
    by (simp add: quiet_def recv_peerPacketReady_def)
  assume "waitAvailablePeerPacket dc ev nxt d c r pt = Inr (res, pt')"
  then show ?thesis
    by (auto simp: waitAvailablePeerPacket_def Let_def quiet_refl e f
        split: available_event.splits option.splits if_splits
        intro: quiet_trans [OF a quiet_backSource] quiet_trans [OF b quiet_backSource])
qed

lemma quiet_waitFailedPiece: "quiet c pt (snd (waitFailedPiece dc ev pt))"
  by (simp add: waitFailedPiece_def quiet_def split: failed_event.splits)

lemma quiet_pullPiecesFromPeers_exit:
  "pullPiecesFromPeers_exit r pt = Inr pt' \<Longrightarrow> quiet True pt pt'"
proof -
  have a: "quiet True pt (pt\<lparr>failedPieceCh := x\<rparr>)" for x
    by (simp add: quiet_def)
  assume "pullPiecesFromPeers_exit r pt = Inr pt'"
  then show ?thesis
    by (auto simp: pullPiecesFromPeers_exit_def split: if_splits
        intro: quiet_trans [OF a quiet_cleanUnfinished])
qed

lemma quiet_pullPiecesFromPeers_first:
  "pullPiecesFromPeers_first dc ev d c r r' pt = Inr (ok, pt') \<Longrightarrow> quiet True pt pt'"
  by (auto simp: pullPiecesFromPeers_first_def split: sum.splits prod.splits bool.splits
      intro: quiet_waitFirstPeerPacket
        quiet_trans [OF quiet_waitFirstPeerPacket quiet_pullPiecesFromPeers_exit])

lemma quiet_pullPiecesFromPeers_select:
  "quiet c pt (snd (snd (pullPiecesFromPeers_select dc ev nl pt)))"
  by (simp add: pullPiecesFromPeers_select_def quiet_def Let_def
      split: pull_event.splits list.splits)

lemma quiet_preparePieceTasksByPeer:
  "quiet False pt (snd (preparePieceTasksByPeer dc cur peer got pt))"
  by (simp add: preparePieceTasksByPeer_def quiet_def Send_alt Let_def
      split: option.splits sum.splits)

lemma quiet_getPieceTasks:
  "quiet True pt (snd (getPieceTasks dc cur peer rpc pt))"
  by (simp add: getPieceTasks_def quiet_def Send_alt Let_def
      split: sum.splits bool.splits)

lemma quiet_dispatchPiece: "quiet c pt (dispatchPiece dc pc sel pt)"
  by (simp add: dispatchPiece_def quiet_def Let_def split: dispatch_sel.splits)

lemma quiet_dispatchPieceRequest: "quiet c pt (dispatchPieceRequest dc reqs pt)"
proof (induction reqs arbitrary: pt)
  case Nil
  show ?case by (simp add: quiet_refl)
next
  case (Cons a reqs)
  obtain pc sel where a: "a = (pc, sel)" by (cases a)
  show ?case
    unfolding a dispatchPieceRequest.simps
    by (rule quiet_trans [OF quiet_dispatchPiece Cons.IH])
qed

lemma quiet_ReportPieceResult_failure:
  "\<not> pr_Success (pieceResult r) \<Longrightarrow> quiet True pt (snd (ReportPieceResult dc r sel c rc pt))"
  by (simp add: ReportPieceResult_def quiet_def Send_alt send_failedPieceCh_def Let_def)

lemma ReportPieceResult_again:
  "pr_Success (pieceResult r) \<Longrightarrow> IsSet (readyPieces pt) (pr_PieceNum (pieceResult r)) \<Longrightarrow>
   ReportPieceResult dc r sel c rc pt = (None, pt)"
  by (simp add: ReportPieceResult_def)

lemma reported_quiet:
  "reported n sz pt a \<Longrightarrow> quiet True a b \<Longrightarrow> reported n sz pt b"
  by (auto simp: reported_def quiet_def)

lemma reported_progress:
  "reported n sz pt a \<Longrightarrow> reported n sz pt (a\<lparr>progress := x\<rparr>)"
  by (auto simp: reported_def)

lemma reported_Send:
  "pr_Success (pieceResult r) \<Longrightarrow>
   reported (pr_PieceNum (pieceResult r)) (RangeSize (piece r)) pt
     (Send ((pieceResult r)\<lparr>pr_FinishedCount :=
               Settled (Set_bit (readyPieces pt) (pr_PieceNum (pieceResult r)))\<rparr>)
        (pt\<lparr>readyPieces := Set_bit (readyPieces pt) (pr_PieceNum (pieceResult r)),
            completedLength := completedLength pt + ucast (RangeSize (piece r))\<rparr>))"
  by (simp add: reported_def Send_alt)

lemma ReportPieceResult_first:
  assumes "pr_Success (pieceResult r)"
    and "\<not> IsSet (readyPieces pt) (pr_PieceNum (pieceResult r))"
  shows "reported (pr_PieceNum (pieceResult r)) (RangeSize (piece r)) pt
           (snd (ReportPieceResult dc r sel c rc pt))"
  using assms reported_Send [OF assms(1), of pt]
  by (auto simp: ReportPieceResult_def Let_def split: progress_sel.splits
      intro: reported_progress reported_quiet [OF _ quiet_finish]
        reported_quiet [OF reported_progress quiet_finish])

lemma quiet_limiterError:
  "quiet True pt (downloadPieceWorker_limiterError dc dstPid pc err pt)"
proof -
  have a: "quiet True pt1 (pt1\<lparr>failedReason := x, failedCode := y, cancelled := z\<rparr>)" for pt1 x y z
    by (simp add: quiet_def)
  show ?thesis
    unfolding downloadPieceWorker_limiterError_def Let_def
    by (rule quiet_trans [OF quiet_ReportPieceResult_failure a]) simp
qed

lemma step_quiet:
  assumes "step dc x pt = Inr pt'"
  shows "case x of
           Op_ReportPieceResult r sel c rc \<Rightarrow>
             (if pr_Success (pieceResult r) \<and> \<not> IsSet (readyPieces pt) (pr_PieceNum (pieceResult r))
              then reported (pr_PieceNum (pieceResult r)) (RangeSize (piece r)) pt pt'
              else quiet True pt pt')
         | Op_preparePieceTasksByPeer cur peer got \<Rightarrow> quiet False pt pt'
         | _ \<Rightarrow> quiet True pt pt'"
proof (cases x)
  case (Op_ReportPieceResult r sel c rc)
  show ?thesis
  proof (cases "pr_Success (pieceResult r)")
    case True
    with Op_ReportPieceResult assms show ?thesis
      using ReportPieceResult_first [of r pt dc sel c rc]
        ReportPieceResult_again [of r pt dc sel c rc]
      by (auto simp: quiet_refl)
  next
    case False
    with Op_ReportPieceResult assms show ?thesis
      using quiet_ReportPieceResult_failure [of r pt dc sel c rc] by auto
  qed
next
  case (Op_receivePeerPacket pre net sel)
  with assms show ?thesis
    by (auto split: sum.splits prod.splits intro: quiet_receivePeerPacket)
next
  case (Op_pullPiecesFromPeers_first ev d c r r')
  with assms show ?thesis
    by (auto split: sum.splits prod.splits intro: quiet_pullPiecesFromPeers_first)
next
  case (Op_waitAvailablePeerPacket ev nxt d c r)
  with assms show ?thesis
    by (auto split: sum.splits prod.splits intro: quiet_waitAvailablePeerPacket)
next
  case (Op_getPieceTasks cur peer rpc)
  have a: "quiet True pt1 (pt1\<lparr>recovered := z\<rparr>)" for pt1 z
    by (simp add: quiet_def)
  from Op_getPieceTasks assms show ?thesis
    using quiet_getPieceTasks [of pt dc cur peer rpc]
    by (auto split: sum.splits prod.splits intro: quiet_trans [OF _ a])
qed (use assms in \<open>auto intro: quiet_finish quiet_cleanUnfinished quiet_SetContentLength
      quiet_backSource quiet_DoneCallback quiet_AddTraffic quiet_Start
      quiet_pullPiecesFromPeers_select quiet_pullPiecesFromPeers_exit
      quiet_preparePieceTasksByPeer quiet_dispatchPieceRequest quiet_limiterError
      quiet_waitFailedPiece\<close>)

subsection \<open>Runs\<close>

lemma newFilePeerTask_fresh:
  assumes "newFilePeerTask dc TaskID request registered disable reportErr = Inr (Some pt, tiny)"
  shows "readyPieces pt = {}" "completedLength pt = 0" "sent pt = []" "\<not> once pt"
    "\<not> done_ch pt" "recovered pt = []" "failedCode pt = UnknownError dc"
    "failedReason pt = failedReasonNotSet" "\<not> peerTaskDone pt" "callbacks pt = []"
  using assms
  by (auto simp: newFilePeerTask_def newFilePeerTask_registered_def NewBitmap_def Let_def
      split: sum.splits option.splits if_splits DirectPiece.splits)

lemma run_invariant:
  "P pt \<Longrightarrow> (\<And>x a b. x \<in> set xs \<Longrightarrow> P a \<Longrightarrow> step dc x a = Inr b \<Longrightarrow> P b) \<Longrightarrow>
   P (snd (run dc xs pt))"
proof (induction xs arbitrary: pt)
  case Nil
  then show ?case by simp
next
  case (Cons x xs)
  show ?case
  proof (cases "step dc x pt")
    case (Inl p)
    with Cons.prems(1) show ?thesis by simp
  next
    case (Inr pt1)
    have "P pt1" using Cons.prems(2) [of x pt pt1] Cons.prems(1) Inr by simp
    then have "P (snd (run dc xs pt1))"
    proof (rule Cons.IH)
      fix y a b
      assume "y \<in> set xs" "P a" "step dc y a = Inr b"
      then show "P b" using Cons.prems(2) [of y a b] by simp
    qed
    with Inr show ?thesis by simp
  qed
qed

lemma step_frame:
  "step dc x pt = Inr pt' \<Longrightarrow> \<not> is_report x \<Longrightarrow>
   readyPieces pt' = readyPieces pt \<and> completedLength pt' = completedLength pt"
  using step_quiet [of dc x pt pt']
  by (cases x) (auto simp: quiet_def)

subsection \<open>The completed length\<close>

text \<open>
  The sum of fewer than \<open>2\<^sup>3\<^sup>2\<close> range sizes, each below \<open>2\<^sup>3\<^sup>2\<close>, fits the 64 bits
  of the completed length.
\<close>

lemma unat_ucast_32_64: "unat (ucast (x :: 32 word) :: 64 word) = unat x"
proof -
  have "unat x < 2 ^ 32" using unsigned_less [of x, where 'a = nat] by simp
  then have "unat x < 2 ^ 64" by simp
  then show ?thesis by (simp add: unsigned_ucast_eq take_bit_nat_eq_self)
qed

lemma unat_sum_mod:
  "finite S \<Longrightarrow> unat (\<Sum>p\<in>S. g p :: 64 word) = (\<Sum>p\<in>S. unat (g p)) mod 2 ^ 64"
proof (induction S rule: finite_induct)
  case empty
  show ?case by simp
next
  case (insert x F)
  then show ?case
    by (simp add: unat_word_ariths mod_simps)
qed

lemma sum_unat_bound:
  fixes S :: "32 word set" and f :: "32 word \<Rightarrow> 32 word"
  shows "(\<Sum>p\<in>S. unat (f p)) < 2 ^ 64"
proof -
  have "(\<Sum>p\<in>S. unat (f p)) \<le> (\<Sum>p\<in>S. 2 ^ 32 - 1)"
  proof (rule sum_mono)
    fix p
    have "unat (f p) < 2 ^ 32" using unsigned_less [of "f p", where 'a = nat] by simp
    then show "unat (f p) \<le> 2 ^ 32 - 1" by simp
  qed
  also have "\<dots> = card S * (2 ^ 32 - 1)" by simp
  also have "\<dots> \<le> 2 ^ 32 * (2 ^ 32 - 1)"
  proof -
    have "card S \<le> card (UNIV :: 32 word set)" by (rule card_mono) simp_all
    then have "card S \<le> 2 ^ 32" by (simp add: card_word)
    then show ?thesis by (rule mult_le_mono1)
  qed
  also have "\<dots> < (2 :: nat) ^ 64" by simp
  finally show ?thesis .
qed

lemma unat_sum_ucast:
  fixes S :: "32 word set" and f :: "32 word \<Rightarrow> 32 word"
  shows "unat (\<Sum>p\<in>S. ucast (f p) :: 64 word) = (\<Sum>p\<in>S. unat (f p))"
proof -
  have "unat (\<Sum>p\<in>S. ucast (f p) :: 64 word) = (\<Sum>p\<in>S. unat (ucast (f p) :: 64 word)) mod 2 ^ 64"
    by (rule unat_sum_mod) simp
  also have "\<dots> = (\<Sum>p\<in>S. unat (f p)) mod 2 ^ 64"
    by (simp add: unat_ucast_32_64)
  also have "\<dots> = (\<Sum>p\<in>S. unat (f p))"
    using sum_unat_bound [of f S] by simp
  finally show ?thesis .
qed

lemma step_sum:
  assumes "step dc x pt = Inr pt'" and "report_ok rs x"
    and "completedLength pt = (\<Sum>p\<in>readyPieces pt. ucast (rs p))"
  shows "completedLength pt' = (\<Sum>p\<in>readyPieces pt'. ucast (rs p))"
proof (cases "is_report x")
  case False
  with step_frame [OF assms(1)] assms(3) show ?thesis by simp
next
  case True
  then obtain r sel c rc where x: "x = Op_ReportPieceResult r sel c rc"
    by (cases x) auto
  show ?thesis
  proof (cases "pr_Success (pieceResult r) \<and> \<not> IsSet (readyPieces pt) (pr_PieceNum (pieceResult r))")
    case True
    with step_quiet [OF assms(1)] x
    have "reported (pr_PieceNum (pieceResult r)) (RangeSize (piece r)) pt pt'" by simp
    with True assms(2,3) x show ?thesis
      by (simp add: reported_def Set_bit_def IsSet_def)
  next
    case False
    with step_quiet [OF assms(1)] x have "quiet True pt pt'" by simp
    with assms(3) show ?thesis by (simp add: quiet_def)
  qed
qed

text \<open>
  C1: in every run of a task that \<^verbatim>\<open>newFilePeerTask\<close> made, whose reports carry each
  piece's own range size, the completed length is the sum of the range sizes of the pieces
  whose ready bit is set, after every call: as 64-bit values, and as numbers (the sum
  never wraps). A successful report of a piece that is not yet ready sets its bit and adds
  exactly its range size (in the source both happen between \<^verbatim>\<open>pt.lock.Lock()\<close> and
  \<^verbatim>\<open>pt.lock.Unlock()\<close>), and no call other than \<^verbatim>\<open>ReportPieceResult\<close> changes the ready
  bitmap or the completed length.
\<close>

theorem completedLength_sum_ready:
  assumes "newFilePeerTask dc TaskID request registered disable reportErr = Inr (Some pt0, tiny)"
    and "\<forall>x\<in>set xs. report_ok rs x"
  shows "completedLength (snd (run dc xs pt0))
           = (\<Sum>p\<in>readyPieces (snd (run dc xs pt0)). ucast (rs p)) \<and>
         unat (completedLength (snd (run dc xs pt0)))
           = (\<Sum>p\<in>readyPieces (snd (run dc xs pt0)). unat (rs p)) \<and>
         (\<forall>(r::pieceTaskResult) sel c rc (pt::peerTask).
            pr_Success (pieceResult r) \<and> \<not> IsSet (readyPieces pt) (pr_PieceNum (pieceResult r)) \<longrightarrow>
            readyPieces (snd (ReportPieceResult dc r sel c rc pt))
              = Set_bit (readyPieces pt) (pr_PieceNum (pieceResult r)) \<and>
            completedLength (snd (ReportPieceResult dc r sel c rc pt))
              = completedLength pt + ucast (RangeSize (piece r))) \<and>
         (\<forall>x (pt::peerTask) pt'. \<not> is_report x \<and> step dc x pt = Inr pt' \<longrightarrow>
            readyPieces pt' = readyPieces pt \<and> completedLength pt' = completedLength pt)"
proof (intro conjI allI impI)
  have "completedLength pt0 = (\<Sum>p\<in>readyPieces pt0. ucast (rs p))"
    using newFilePeerTask_fresh(1,2) [OF assms(1)] by simp
  then show inv: "completedLength (snd (run dc xs pt0))
           = (\<Sum>p\<in>readyPieces (snd (run dc xs pt0)). ucast (rs p))"
    by (rule run_invariant) (use assms(2) step_sum in blast)
  show "unat (completedLength (snd (run dc xs pt0)))
           = (\<Sum>p\<in>readyPieces (snd (run dc xs pt0)). unat (rs p))"
    unfolding inv by (rule unat_sum_ucast)
next
  fix r :: pieceTaskResult and sel c rc and pt :: peerTask
  assume "pr_Success (pieceResult r) \<and> \<not> IsSet (readyPieces pt) (pr_PieceNum (pieceResult r))"
  then have "reported (pr_PieceNum (pieceResult r)) (RangeSize (piece r)) pt
           (snd (ReportPieceResult dc r sel c rc pt))"
    using ReportPieceResult_first by blast
  then show "readyPieces (snd (ReportPieceResult dc r sel c rc pt))
              = Set_bit (readyPieces pt) (pr_PieceNum (pieceResult r))"
    and "completedLength (snd (ReportPieceResult dc r sel c rc pt))
              = completedLength pt + ucast (RangeSize (piece r))"
    by (simp_all add: reported_def)
next
  fix x and pt :: peerTask and pt'
  assume "\<not> is_report x \<and> step dc x pt = Inr pt'"
  then show "readyPieces pt' = readyPieces pt" and "completedLength pt' = completedLength pt"
    using step_frame by blast+
qed

theorem completedLength_sum_ready_witness:
  "newFilePeerTask dfcodes_table (\<lambda>url meta. url) example_request
     (Inr (Some \<lparr>rr_TaskId = ''task-1'', rr_SizeScope = NORMAL, rr_DirectPiece = NoDirectPiece\<rparr>))
     False None = Inr (Some example_task, None) \<and>
   report_ok (\<lambda>p. 1024) (Op_ReportPieceResult example_result ProgressSent None True) \<and>
   readyPieces (snd (run dfcodes_table
      [Op_ReportPieceResult example_result ProgressSent None True] example_task)) = {0} \<and>
   completedLength (snd (run dfcodes_table
      [Op_ReportPieceResult example_result ProgressSent None True] example_task)) = 1024"
proof -
  have h: "\<forall>x\<in>set [Op_ReportPieceResult example_result ProgressSent None True].
             report_ok (\<lambda>p. 1024) x"
    by (simp add: example_result_def)
  have n: "pr_Success (pieceResult example_result) \<and>
           \<not> IsSet (readyPieces example_task) (pr_PieceNum (pieceResult example_result))"
    by (simp add: example_result_def example_task_def IsSet_def NewBitmap_def)
  have v: "readyPieces example_task = {}" "completedLength example_task = 0"
    "pr_PieceNum (pieceResult example_result) = 0" "RangeSize (piece example_result) = 1024"
    by (simp_all add: example_result_def example_task_def NewBitmap_def)
  from completedLength_sum_ready [OF example_task_new h] n v h
  show ?thesis by (simp add: example_task_new Set_bit_def)
qed

subsection \<open>Results handed to the scheduler\<close>

lemma filter_conj_le: "length (filter (\<lambda>m. P m \<and> Q m) ms) \<le> length (filter P ms)"
  by (induction ms) auto

lemma filter_conj_none: "\<forall>m\<in>set ms. P m \<longrightarrow> f m = a \<Longrightarrow> a \<noteq> n \<Longrightarrow>
   filter (\<lambda>m. P m \<and> f m = n) ms = []"
  by (induction ms) auto

lemma filter_none: "\<forall>m\<in>set ms. \<not> P m \<Longrightarrow> filter (\<lambda>m. P m \<and> Q m) ms = []"
  by (induction ms) auto

lemma quiet_successes: "quiet c pt pt' \<Longrightarrow> successes n pt' = successes n pt"
  by (auto simp: quiet_def successes_def filter_none)

lemma reported_successes:
  assumes "reported n0 sz pt pt'"
  shows "successes n pt' \<le> successes n pt + (if n = n0 then 1 else 0)"
proof -
  from assms obtain ms where ms: "sent pt' = sent pt @ ms"
    "length (filter pr_Success ms) \<le> 1" "\<forall>m\<in>set ms. pr_Success m \<longrightarrow> pr_PieceNum m = n0"
    by (auto simp: reported_def)
  show ?thesis
  proof (cases "n = n0")
    case True
    with ms(1,2) filter_conj_le [of pr_Success "\<lambda>m. pr_PieceNum m = n" ms]
    show ?thesis by (simp add: successes_def)
  next
    case False
    with ms(1) filter_conj_none [OF ms(3), of n] show ?thesis
      by (simp add: successes_def)
  qed
qed

lemma step_successes:
  assumes "step dc x pt = Inr pt'"
    and "\<forall>n. successes n pt \<le> (if IsSet (readyPieces pt) n then 1 else 0)"
  shows "\<forall>n. successes n pt' \<le> (if IsSet (readyPieces pt') n then 1 else 0)"
proof (cases "\<exists>r sel c rc. x = Op_ReportPieceResult r sel c rc \<and> pr_Success (pieceResult r) \<and>
                  \<not> IsSet (readyPieces pt) (pr_PieceNum (pieceResult r))")
  case True
  then obtain r sel c rc where x: "x = Op_ReportPieceResult r sel c rc"
    and new: "pr_Success (pieceResult r)" "\<not> IsSet (readyPieces pt) (pr_PieceNum (pieceResult r))"
    by blast
  with step_quiet [OF assms(1)]
  have rep: "reported (pr_PieceNum (pieceResult r)) (RangeSize (piece r)) pt pt'" by simp
  then have ready: "readyPieces pt' = insert (pr_PieceNum (pieceResult r)) (readyPieces pt)"
    by (simp add: reported_def Set_bit_def)
  show ?thesis
  proof
    fix n
    from assms(2) have a: "successes n pt \<le> (if IsSet (readyPieces pt) n then 1 else 0)" ..
    from reported_successes [OF rep, of n] a new(2) ready
    show "successes n pt' \<le> (if IsSet (readyPieces pt') n then 1 else 0)"
      by (auto simp: IsSet_def split: if_splits)
  qed
next
  case False
  with step_quiet [OF assms(1)] have "\<exists>c. quiet c pt pt'"
    by (cases x) (auto split: if_splits)
  then obtain c where q: "quiet c pt pt'" ..
  then have "readyPieces pt' = readyPieces pt" by (simp add: quiet_def)
  with assms(2) quiet_successes [OF q] show ?thesis by simp
qed

text \<open>
  C8: in every run of a task that \<^verbatim>\<open>newFilePeerTask\<close> made, at most one result with
  \<open>success = true\<close> is handed to the scheduler for any piece number; and a successful report
  of a piece whose ready bit is already set returns \<^verbatim>\<open>nil\<close> and leaves the task as it
  was: no bit set, no length added, nothing sent.
\<close>

theorem ReportPieceResult_success_once:
  assumes "newFilePeerTask dc TaskID request registered disable reportErr = Inr (Some pt0, tiny)"
  shows "length (filter (\<lambda>m. pr_Success m \<and> pr_PieceNum m = n) (sent (snd (run dc xs pt0)))) \<le> 1 \<and>
         (\<forall>(r::pieceTaskResult) sel c rc (pt::peerTask).
            pr_Success (pieceResult r) \<and> IsSet (readyPieces pt) (pr_PieceNum (pieceResult r)) \<longrightarrow>
            ReportPieceResult dc r sel c rc pt = (None, pt))"
proof -
  have "\<forall>n. successes n pt0 \<le> (if IsSet (readyPieces pt0) n then 1 else 0)"
    using newFilePeerTask_fresh(3) [OF assms] by (simp add: successes_def)
  then have "\<forall>n. successes n (snd (run dc xs pt0))
               \<le> (if IsSet (readyPieces (snd (run dc xs pt0))) n then 1 else 0)"
    by (rule run_invariant) (use step_successes in blast)
  then have "successes n (snd (run dc xs pt0)) \<le> 1"
    by (metis (full_types) le_trans zero_le_one order_refl)
  then show ?thesis
    by (simp add: successes_def ReportPieceResult_again)
qed

theorem ReportPieceResult_success_once_witness:
  "newFilePeerTask dfcodes_table (\<lambda>url meta. url) example_request
     (Inr (Some \<lparr>rr_TaskId = ''task-1'', rr_SizeScope = NORMAL, rr_DirectPiece = NoDirectPiece\<rparr>))
     False None = Inr (Some example_task, None) \<and>
   length (filter (\<lambda>m. pr_Success m \<and> pr_PieceNum m = 0)
     (sent (snd (run dfcodes_table
        [Op_ReportPieceResult example_result ProgressSent None True,
         Op_ReportPieceResult example_result ProgressSent None True] example_task)))) \<le> 1"
  using ReportPieceResult_success_once [OF example_task_new, of 0
      "[Op_ReportPieceResult example_result ProgressSent None True,
        Op_ReportPieceResult example_result ProgressSent None True]"]
  by (simp add: example_task_new)




subsection \<open>Registration failure\<close>

lemma step_stream:
  assumes "step dc x pt = Inr pt'"
  shows "peerPacketStream pt' = peerPacketStream pt \<and>
         (peerPacketStream pt = dummyPeerPacketStream \<longrightarrow> sent pt' = sent pt)"
  using step_quiet [OF assms]
  by (cases x) (auto simp: quiet_def reported_def split: if_splits)

lemma run_stream:
  "peerPacketStream (snd (run dc xs pt)) = peerPacketStream pt"
  by (rule run_invariant [where P = "\<lambda>a. peerPacketStream a = peerPacketStream pt"])
    (use step_stream in auto)

lemma run_sent_dummy:
  assumes "peerPacketStream pt = dummyPeerPacketStream"
  shows "sent (snd (run dc xs pt)) = sent pt"
proof -
  have "peerPacketStream (snd (run dc xs pt)) = dummyPeerPacketStream \<and>
        sent (snd (run dc xs pt)) = sent pt"
    by (rule run_invariant [where P = "\<lambda>a. peerPacketStream a = dummyPeerPacketStream \<and>
        sent a = sent pt"]) (use assms step_stream in auto)
  then show ?thesis ..
qed

text \<open>
  C9: when \<^verbatim>\<open>RegisterPeerTask\<close> fails and automatic back-source is not disabled,
  \<^verbatim>\<open>newFilePeerTask\<close> returns a task that needs back-source, whose task id is
  \<^verbatim>\<open>idgen.TaskID\<close> of the URL and its metadata, and whose client and stream are the dummy
  ones; \<^verbatim>\<open>Start\<close> sends it to back-source. In every state the task reaches, \<^verbatim>\<open>Recv\<close>
  returns the error with code \<^verbatim>\<open>SchedNeedBackSource\<close>, and a send changes nothing, reaches
  no scheduler and returns no error.
\<close>

theorem newFilePeerTask_register_failure_back_source:
  assumes "\<not> disable"
  shows "\<exists>pt. newFilePeerTask dc TaskID request (Inl err) disable reportErr = Inr (Some pt, None) \<and>
           needBackSource pt \<and>
           taskID pt = TaskID (Url request) (UrlMeta request) \<and>
           schedulerClient pt = dummySchedulerClient \<and>
           peerPacketStream pt = dummyPeerPacketStream \<and>
           fst (Start pt) = GoBackSource \<and>
           (\<forall>xs net. Recv dc net (snd (run dc xs pt)) = RecvDfError (SchedNeedBackSource dc) []) \<and>
           (\<forall>xs pr. Send pr (snd (run dc xs pt)) = snd (run dc xs pt)) \<and>
           (\<forall>xs. sent (snd (run dc xs pt)) = []) \<and>
           (\<forall>pr. dummy_Send pr = None)"
proof -
  obtain pt where new: "newFilePeerTask dc TaskID request (Inl err) disable reportErr = Inr (Some pt, None)"
    and f: "needBackSource pt" "taskID pt = TaskID (Url request) (UrlMeta request)"
      "schedulerClient pt = dummySchedulerClient" "peerPacketStream pt = dummyPeerPacketStream"
      "sent pt = []"
    using assms
    by (simp add: newFilePeerTask_def newFilePeerTask_registered_def client_ReportPieceResult_def)
  have s: "peerPacketStream (snd (run dc xs pt)) = dummyPeerPacketStream" for xs
    using run_stream [of dc xs pt] f(4) by simp
  have "fst (Start pt) = GoBackSource" using f(1) by (simp add: Start_def Let_def)
  moreover have "Recv dc net (snd (run dc xs pt)) = RecvDfError (SchedNeedBackSource dc) []" for xs net
    using s [of xs] by (simp add: Recv_def dummy_Recv_def)
  moreover have "Send pr (snd (run dc xs pt)) = snd (run dc xs pt)" for xs pr
    using s [of xs] by (simp add: Send_def)
  moreover have "sent (snd (run dc xs pt)) = []" for xs
    using run_sent_dummy [OF f(4), of dc xs] f(5) by simp
  ultimately show ?thesis using new f by (auto simp: dummy_Send_def)
qed

theorem newFilePeerTask_register_failure_back_source_witness:
  "\<not> False \<and>
   (\<exists>pt. newFilePeerTask dfcodes_table (\<lambda>url meta. url) example_request
            (Inl ''scheduler unavailable'') False None = Inr (Some pt, None) \<and>
          needBackSource pt \<and> taskID pt = ''http://origin/file'' \<and>
          peerPacketStream pt = dummyPeerPacketStream \<and>
          Recv dfcodes_table RecvEOF pt = RecvDfError 5001 [])"
proof -
  have h: "\<not> False" by simp
  from newFilePeerTask_register_failure_back_source [OF h, of dfcodes_table "\<lambda>url meta. url"
      example_request "''scheduler unavailable''" None]
  obtain pt where p: "newFilePeerTask dfcodes_table (\<lambda>url meta. url) example_request
            (Inl ''scheduler unavailable'') False None = Inr (Some pt, None)"
    "needBackSource pt" "taskID pt = Url example_request"
    "peerPacketStream pt = dummyPeerPacketStream"
    "\<forall>xs net. Recv dfcodes_table net (snd (run dfcodes_table xs pt))
       = RecvDfError (SchedNeedBackSource dfcodes_table) []"
    by auto
  from p(5) have "Recv dfcodes_table RecvEOF (snd (run dfcodes_table [] pt))
       = RecvDfError (SchedNeedBackSource dfcodes_table) []" by blast
  then have "Recv dfcodes_table RecvEOF pt = RecvDfError 5001 []"
    by (simp add: dfcodes_table_def)
  with p show ?thesis by (auto simp: example_request_def)
qed

subsection \<open>The one-shot latch\<close>







lemma latch_inv_same:
  "done_ch pt' = done_ch pt \<Longrightarrow> once pt' = once pt \<Longrightarrow> recovered pt' = recovered pt \<Longrightarrow>
   latch_inv pt \<Longrightarrow> latch_inv pt'"
  by (simp add: latch_inv_def)





















subsection \<open>Schedule timeout and context cancellation\<close>

lemma finish_body_back_source:
  "needBackSource (finish_body dc c r pt) = needBackSource pt"
  "downloadSourceCalls (finish_body dc c r pt) = downloadSourceCalls pt"
  "failedCode (finish_body dc c r pt) = failedCode pt"
  by (simp_all add: finish_body_def Send_alt close_done_alt Let_def)

lemma cleanUnfinished_body_back_source:
  "needBackSource (cleanUnfinished_body r pt) = needBackSource pt"
  "downloadSourceCalls (cleanUnfinished_body r pt) = downloadSourceCalls pt"
  "failedCode (cleanUnfinished_body r pt) = failedCode pt"
  by (simp_all add: cleanUnfinished_body_def Send_alt close_done_alt Let_def)

lemma finish_back_source:
  "needBackSource (snd (finish dc c r pt)) = needBackSource pt"
  "downloadSourceCalls (snd (finish dc c r pt)) = downloadSourceCalls pt"
  "failedCode (snd (finish dc c r pt)) = failedCode pt"
  by (simp_all add: finish_def once_Do_def finish_body_back_source)

lemma cleanUnfinished_back_source:
  "needBackSource (cleanUnfinished r pt) = needBackSource pt"
  "downloadSourceCalls (cleanUnfinished r pt) = downloadSourceCalls pt"
  "failedCode (cleanUnfinished r pt) = failedCode pt"
  by (simp_all add: cleanUnfinished_def once_Do_def cleanUnfinished_body_back_source)

lemma backSource_back_source:
  "needBackSource (backSource dc d c r pt) = needBackSource pt"
  "downloadSourceCalls (backSource dc d c r pt) = Suc (downloadSourceCalls pt)"
  "failedCode (backSource dc d c r pt) = failedCode pt"
  by (simp_all add: backSource_def cleanUnfinished_back_source finish_back_source Let_def
      split: option.splits)

text \<open>
  The sibling branch: when \<^verbatim>\<open>waitAvailablePeerPacket\<close> finds \<^verbatim>\<open>peerPacketReady\<close> closed and
  automatic back-source is disabled, it records the timeout and does not call
  \<^verbatim>\<open>backSource\<close>; there the back-source statements are the \<^verbatim>\<open>else\<close> branch.
\<close>

lemma waitAvailablePeerPacket_closed_disabled:
  "waitAvailablePeerPacket dc AvailableClosed nxt dsErr cbDone received
     (pt\<lparr>DisableAutoBackSource := True\<rparr>)
   = Inr ((- 1, False), pt\<lparr>DisableAutoBackSource := True, failedReason := reasonReScheduleTimeout,
                            failedCode := ClientScheduleTimeout dc\<rparr>)"
  by (simp add: waitAvailablePeerPacket_def)

text \<open>
  C3: what the code does when no first peer packet arrives in time on a task whose
  automatic back-source is disabled. It records \<^verbatim>\<open>ClientScheduleTimeout\<close>, and then sets
  \<^verbatim>\<open>needBackSource\<close> and calls \<^verbatim>\<open>backSource\<close> all the same, which calls
  \<^verbatim>\<open>pieceManager.DownloadSource\<close>: the two statements follow the \<^verbatim>\<open>if\<close> instead of being
  its \<^verbatim>\<open>else\<close> branch.
\<close>

theorem waitFirstPeerPacket_timeout_enters_back_source:
  "\<exists>pt'. waitFirstPeerPacket dc FirstTimeout dsErr cbDone received
             (pt\<lparr>DisableAutoBackSource := True\<rparr>) = Inr (False, pt') \<and>
          needBackSource pt' \<and>
          downloadSourceCalls pt' = Suc (downloadSourceCalls pt) \<and>
          failedCode pt' = ClientScheduleTimeout dc"
  by (simp add: waitFirstPeerPacket_def backSource_back_source Let_def)

text \<open>
  For every table of codes: a failed code other than the sentinel survives the
  cancellation branch of the pull loop, and a new task's failed code is \<^verbatim>\<open>UnknownError\<close>.
\<close>

lemma pullPiecesFromPeers_select_keeps_failedCode:
  "failedCode pt \<noteq> failedCodeNotSet \<Longrightarrow>
   failedCode (snd (snd (pullPiecesFromPeers_select dc (PullContextDone e) nl pt))) = failedCode pt"
  by (simp add: pullPiecesFromPeers_select_def)

text \<open>
  C4: what the code does when the context of a new task is cancelled before any failure
  was recorded. \<^verbatim>\<open>newFilePeerTask\<close> initialises the failed code to \<^verbatim>\<open>UnknownError\<close>, not to
  \<^verbatim>\<open>failedCodeNotSet\<close>, so the pull loop's test \<^verbatim>\<open>pt.failedCode == failedCodeNotSet\<close> fails
  and the task ends with \<^verbatim>\<open>UnknownError\<close> and the reason \<^verbatim>\<open>unknown\<close> in its final progress
  event, not with \<^verbatim>\<open>ClientContextCanceled\<close>.
\<close>

theorem context_cancel_reports_UnknownError:
  "newFilePeerTask dfcodes_table (\<lambda>url meta. url) example_request
     (Inr (Some \<lparr>rr_TaskId = ''task-1'', rr_SizeScope = NORMAL, rr_DirectPiece = NoDirectPiece\<rparr>))
     False None = Inr (Some example_task, None) \<and>
   failedCode example_task \<noteq> failedCodeNotSet \<and>
   fst (run dfcodes_table
          [Op_Start,
           Op_pullPiecesFromPeers_select (PullContextDone ''context canceled'') (0, 16),
           Op_pullPiecesFromPeers_exit True] example_task) = None \<and>
   map (\<lambda>p. (ps_Success (State p), ps_Code (State p), ps_Msg (State p), PeerTaskDone p))
     (progress (snd (run dfcodes_table
          [Op_Start,
           Op_pullPiecesFromPeers_select (PullContextDone ''context canceled'') (0, 16),
           Op_pullPiecesFromPeers_exit True] example_task)))
     = [(False, UnknownError dfcodes_table, failedReasonNotSet, True)] \<and>
   failedCode (snd (run dfcodes_table
          [Op_Start,
           Op_pullPiecesFromPeers_select (PullContextDone ''context canceled'') (0, 16),
           Op_pullPiecesFromPeers_exit True] example_task)) = UnknownError dfcodes_table \<and>
   UnknownError dfcodes_table \<noteq> ClientContextCanceled dfcodes_table"
proof -
  have r: "run dfcodes_table
          [Op_Start,
           Op_pullPiecesFromPeers_select (PullContextDone ''context canceled'') (0, 16),
           Op_pullPiecesFromPeers_exit True] example_task
        = (None, example_task
              \<lparr>callbacks := [CallFail (UnknownError dfcodes_table) failedReasonNotSet,
                             CallFail (UnknownError dfcodes_table) failedReasonNotSet],
               failedPieceCh := \<lparr>ci_closed = True, ci_buf = []\<rparr>,
               once := True,
               sent := [NewEndPieceResult ''task-1'' ''peer-1'' 0],
               progress := [\<lparr> State = \<lparr>ps_Success = False, ps_Code = UnknownError dfcodes_table,
                                         ps_Msg = failedReasonNotSet\<rparr>,
                               fp_TaskID = ''task-1'', fp_PeerID = ''peer-1'',
                               fp_ContentLength = - 1, fp_CompletedLength = 0,
                               PeerTaskDone = True \<rparr>],
               done_ch := True, cancelled := True\<rparr>)"
    by (simp add: example_task_def Start_def pullPiecesFromPeers_select_def
        pullPiecesFromPeers_exit_def cleanUnfinished_def once_Do_def cleanUnfinished_body_def
        Send_def close_done_def Let_def failedCodeNotSet_def dfcodes_table_def Settled_def
        NewBitmap_def)
  show ?thesis
    unfolding r by (simp add: example_task_new) (simp add: example_task_def dfcodes_table_def failedCodeNotSet_def)
qed

end
